theory Spec2Isabelle
  imports Main
begin

section \<open>Strings\<close>

text \<open>
  JavaScript strings are modelled as \<^typ>\<open>string\<close>. The functions below only ever
  compare code units with \<open>/\<close>, \<open>.\<close>, \<open>#\<close> and the letters of a few fixed words, so
  the width of a code unit plays no role.
\<close>

text \<open>\<open>s.startsWith(p)\<close>.\<close>

definition startsWith :: "string \<Rightarrow> string \<Rightarrow> bool" where
  "startsWith p s = (take (length p) s = p)"

text \<open>\<open>s.split(c)\<close> for a one-character separator: never the empty array.\<close>

fun splitOn :: "char \<Rightarrow> string \<Rightarrow> string list" where
  "splitOn c [] = [[]]"
| "splitOn c (x # xs) =
     (if x = c then [] # splitOn c xs
      else (case splitOn c xs of [] \<Rightarrow> [[x]] | y # ys \<Rightarrow> (x # y) # ys))"

text \<open>\<open>parts.join(sep)\<close>.\<close>

fun joinWith :: "string \<Rightarrow> string list \<Rightarrow> string" where
  "joinWith sep [] = []"
| "joinWith sep [x] = x"
| "joinWith sep (x # y # ys) = x @ sep @ joinWith sep (y # ys)"

text \<open>\<open>s.lastIndexOf(c)\<close>: the index of the last occurrence, \<open>-1\<close> when there is none.\<close>

fun lastIndexFrom :: "char \<Rightarrow> string \<Rightarrow> int \<Rightarrow> int \<Rightarrow> int" where
  "lastIndexFrom c [] i found = found"
| "lastIndexFrom c (x # xs) i found = lastIndexFrom c xs (i + 1) (if x = c then i else found)"

definition lastIndexOf :: "char \<Rightarrow> string \<Rightarrow> int" where
  "lastIndexOf c s = lastIndexFrom c s 0 (- 1)"

section \<open>Path helpers\<close>

text \<open>
  The loop of \<open>normalizePath\<close>: \<open>stack.pop()\<close> on \<open>..\<close> (a no-op on the empty array),
  \<open>stack.push(p)\<close> on anything but \<open>.\<close>.
\<close>

fun normalizeLoop :: "string list \<Rightarrow> string list \<Rightarrow> string list" where
  "normalizeLoop stack [] = stack"
| "normalizeLoop stack (p # ps) =
     (if p = ''..'' then normalizeLoop (butlast stack) ps
      else if p \<noteq> ''.'' then normalizeLoop (stack @ [p]) ps
      else normalizeLoop stack ps)"

text \<open>\<open>path.split('/').filter(Boolean)\<close>: the non-empty segments.\<close>

definition pathParts :: "string \<Rightarrow> string list" where
  "pathParts path = filter (\<lambda>p. p \<noteq> []) (splitOn CHR ''/'' path)"

definition normalizePath :: "string \<Rightarrow> string" where
  "normalizePath path = joinWith ''/'' (normalizeLoop [] (pathParts path))"

definition dirOf :: "string \<Rightarrow> string" where
  "dirOf path =
     (let i = lastIndexOf CHR ''/'' path
      in if i \<ge> 0 then take (nat (i + 1)) path else [])"

text \<open>
  \<open>resolveHref(basePath, href)\<close>. The reference comes from \<open>getAttribute\<close>, which gives
  \<open>null\<close> for a missing attribute: \<open>None\<close> here. \<open>!href\<close> holds for \<open>null\<close> and for the
  empty string.
\<close>

definition resolveHref :: "string \<Rightarrow> string option \<Rightarrow> string" where
  "resolveHref basePath href =
     (case href of
        None \<Rightarrow> []
      | Some h \<Rightarrow>
          if h = [] then []
          else if startsWith ''/'' h then normalizePath h
          else normalizePath (dirOf basePath @ h))"

subsection \<open>The resolver in the words of its description\<close>

text \<open>
  One pass over all the segments: an empty or \<open>.\<close> segment is dropped, \<open>..\<close> removes the
  segment retained last (nothing, when none is retained), any other segment is retained.
\<close>

definition spec_step :: "string list \<Rightarrow> string \<Rightarrow> string list" where
  "spec_step kept seg =
     (if seg = [] \<or> seg = ''.'' then kept
      else if seg = ''..'' then butlast kept
      else kept @ [seg])"

definition spec_normalize :: "string \<Rightarrow> string" where
  "spec_normalize path = joinWith ''/'' (foldl spec_step [] (splitOn CHR ''/'' path))"

text \<open>The directory of a path: its text up to and including the last \<open>/\<close>.\<close>

definition spec_dirOf :: "string \<Rightarrow> string" where
  "spec_dirOf path = rev (dropWhile (\<lambda>c. c \<noteq> CHR ''/'') (rev path))"

definition spec_resolve :: "string \<Rightarrow> string \<Rightarrow> string" where
  "spec_resolve basePath reference =
     (if startsWith ''/'' reference then spec_normalize reference
      else spec_normalize (spec_dirOf basePath @ reference))"

text \<open>
  A relative path does not over-pop its root when, read from the left, no \<open>..\<close> segment
  comes with nothing before it left to remove: \<open>depth\<close> counts the segments retained.
\<close>

fun staysBelow :: "nat \<Rightarrow> string list \<Rightarrow> bool" where
  "staysBelow depth [] = True"
| "staysBelow depth (seg # segs) =
     (if seg = ''..'' then depth > 0 \<and> staysBelow (depth - 1) segs
      else if seg = [] \<or> seg = ''.'' then staysBelow depth segs
      else staysBelow (depth + 1) segs)"

definition noOverPop :: "string \<Rightarrow> bool" where
  "noOverPop path = staysBelow 0 (splitOn CHR ''/'' path)"

text \<open>A segment that normalization retains as it is.\<close>

definition plainSeg :: "string \<Rightarrow> bool" where
  "plainSeg s \<longleftrightarrow> s \<noteq> [] \<and> CHR ''/'' \<notin> set s \<and> s \<noteq> ''.'' \<and> s \<noteq> ''..''"


section \<open>Documents\<close>

text \<open>
  What \<open>DOMParser.parseFromString\<close> returns, as far as the code looks at it: a tree of
  elements (name, attributes in order, children), text and comments. A document is the
  node of its root element. Elements and attributes go by the names the selectors and
  \<open>getAttribute\<close> use.

  An HTML \<open>template\<close> element is a node of its own kind. Both parsers put what is written
  inside it into its template contents, a separate fragment: the element has no children,
  no selector and no \<open>textContent\<close> reaches the contents, and \<open>innerHTML\<close> serializes them.
\<close>

datatype node =
    Element string "(string \<times> string) list" "node list"
  | Template "(string \<times> string) list" "node list"
  | Text string
  | Comment string

fun tagOf :: "node \<Rightarrow> string option" where
  "tagOf (Element t as cs) = Some t"
| "tagOf (Template as contents) = Some ''template''"
| "tagOf _ = None"

fun attrsOf :: "node \<Rightarrow> (string \<times> string) list" where
  "attrsOf (Element t as cs) = as"
| "attrsOf (Template as contents) = as"
| "attrsOf _ = []"

fun childrenOf :: "node \<Rightarrow> node list" where
  "childrenOf (Element t as cs) = cs"
| "childrenOf _ = []"

text \<open>The nodes that \<open>el.innerHTML\<close> serializes.\<close>

fun innerOf :: "node \<Rightarrow> node list" where
  "innerOf (Element t as cs) = cs"
| "innerOf (Template as contents) = contents"
| "innerOf _ = []"

definition getAttribute :: "string \<Rightarrow> node \<Rightarrow> string option" where
  "getAttribute name n = map_of (attrsOf n) name"

text \<open>\<open>el.getAttribute(name) || ''\<close>.\<close>

definition attrOrEmpty :: "string \<Rightarrow> node \<Rightarrow> string" where
  "attrOrEmpty name n = (case getAttribute name n of None \<Rightarrow> [] | Some v \<Rightarrow> v)"

text \<open>\<open>el.setAttribute(name, v)\<close>: the attribute of that name changes, or a new one is added last.\<close>

fun setAttr :: "string \<Rightarrow> string \<Rightarrow> (string \<times> string) list \<Rightarrow> (string \<times> string) list" where
  "setAttr name v [] = [(name, v)]"
| "setAttr name v (a # as) = (if fst a = name then (name, v) # as else a # setAttr name v as)"

text \<open>\<open>el.removeAttribute(name)\<close>.\<close>

definition removeAttr :: "string \<Rightarrow> (string \<times> string) list \<Rightarrow> (string \<times> string) list" where
  "removeAttr name as = filter (\<lambda>a. fst a \<noteq> name) as"

text \<open>\<open>el.textContent\<close>: the text of all text nodes below, in document order.\<close>

fun textContent :: "node \<Rightarrow> string" where
  "textContent (Element t as cs) = concat (map textContent cs)"
| "textContent (Template as contents) = []"
| "textContent (Text s) = s"
| "textContent (Comment s) = []"

text \<open>
  \<open>s.trim()\<close> removes white space and line terminators at both ends; of those, the
  code units that \<^typ>\<open>char\<close> has are tab, LF, VT, FF, CR, space and the no-break space.
\<close>

definition isWhite :: "char \<Rightarrow> bool" where
  "isWhite c = (c \<in> set [CHR 0x09, CHR 0x0A, CHR 0x0B, CHR 0x0C, CHR 0x0D, CHR 0x20, CHR 0xA0])"

definition trim :: "string \<Rightarrow> string" where
  "trim s = rev (dropWhile isWhite (rev (dropWhile isWhite s)))"

subsection \<open>Selectors\<close>

text \<open>An element and the elements below it, in document order.\<close>

fun elementsIn :: "node \<Rightarrow> node list" where
  "elementsIn (Element t as cs) = Element t as cs # concat (map elementsIn cs)"
| "elementsIn (Template as contents) = [Template as contents]"
| "elementsIn _ = []"

text \<open>\<open>doc.querySelector(tag)\<close> on a document: the root element is a candidate.\<close>

definition querySelector :: "string \<Rightarrow> node \<Rightarrow> node option" where
  "querySelector tag doc = find (\<lambda>e. tagOf e = Some tag) (elementsIn doc)"

text \<open>\<open>el.querySelector(tag)\<close> on an element: only the elements below it.\<close>

definition querySelectorBelow :: "string \<Rightarrow> node \<Rightarrow> node option" where
  "querySelectorBelow tag el =
     find (\<lambda>e. tagOf e = Some tag) (concat (map elementsIn (childrenOf el)))"

text \<open>\<open>:scope > tag\<close>: the child elements of that name.\<close>

definition childrenNamed :: "string \<Rightarrow> node \<Rightarrow> node list" where
  "childrenNamed tag el = filter (\<lambda>e. tagOf e = Some tag) (childrenOf el)"

definition firstChildNamed :: "string \<Rightarrow> node \<Rightarrow> node option" where
  "firstChildNamed tag el = find (\<lambda>e. tagOf e = Some tag) (childrenOf el)"

text \<open>\<open>doc.querySelectorAll('a b')\<close>: the \<open>b\<close> elements with an \<open>a\<close> ancestor, in document order.\<close>

fun selectInside :: "string \<Rightarrow> string \<Rightarrow> bool \<Rightarrow> node \<Rightarrow> node list" where
  "selectInside a b inside (Element t as cs) =
     (if inside \<and> t = b then [Element t as cs] else [])
       @ concat (map (selectInside a b (inside \<or> t = a)) cs)"
| "selectInside a b inside (Template as contents) =
     (if inside \<and> b = ''template'' then [Template as contents] else [])"
| "selectInside a b inside _ = []"

text \<open>\<open>doc.querySelectorAll('a > b')\<close>: the \<open>b\<close> elements whose parent is an \<open>a\<close>.\<close>

fun selectChildOf :: "string \<Rightarrow> string \<Rightarrow> bool \<Rightarrow> node \<Rightarrow> node list" where
  "selectChildOf a b parentIsA (Element t as cs) =
     (if parentIsA \<and> t = b then [Element t as cs] else [])
       @ concat (map (selectChildOf a b (t = a)) cs)"
| "selectChildOf a b parentIsA (Template as contents) =
     (if parentIsA \<and> b = ''template'' then [Template as contents] else [])"
| "selectChildOf a b parentIsA _ = []"

section \<open>The archive\<close>

text \<open>
  \<open>zip.file(path)\<close> is \<open>null\<close> for a path that names no file. \<open>file.async(...)\<close> on a file
  gives its content, or is rejected when the stored data cannot be inflated. The content
  is one string here, for the text that \<open>async('text')\<close> decodes and for the bytes that
  \<open>async('blob')\<close> holds.
\<close>

datatype entry = Readable string | Damaged

type_synonym archive = "string \<Rightarrow> entry option"

datatype error = InvalidEpub string | ReadFailure | TypeError

text \<open>\<open>await zip.file(path)?.async('text')\<close>: \<open>None\<close> is \<open>undefined\<close>.\<close>

definition readText :: "archive \<Rightarrow> string \<Rightarrow> error + string option" where
  "readText ar path =
     (case ar path of
        None \<Rightarrow> Inr None
      | Some Damaged \<Rightarrow> Inl ReadFailure
      | Some (Readable s) \<Rightarrow> Inr (Some s))"

section \<open>Navigation\<close>

datatype navNode = NavNode (label: string) (href: string) (subitems: "navNode list")

text \<open>\<open>np.querySelector(':scope > navLabel > text')\<close>.\<close>

definition ncxLabelElement :: "node \<Rightarrow> node option" where
  "ncxLabelElement np =
     (case concat (map (childrenNamed ''text'') (childrenNamed ''navLabel'' np)) of
        [] \<Rightarrow> None
      | t # _ \<Rightarrow> Some t)"

text \<open>\<open>el?.textContent?.trim() || ''\<close>.\<close>

definition trimmedText :: "node option \<Rightarrow> string" where
  "trimmedText el = (case el of None \<Rightarrow> [] | Some e \<Rightarrow> trim (textContent e))"

definition ncxSrc :: "node \<Rightarrow> string" where
  "ncxSrc np = (case firstChildNamed ''content'' np of None \<Rightarrow> [] | Some c \<Rightarrow> attrOrEmpty ''src'' c)"

text \<open>
  The body of the loop of \<open>parseNcxPoints\<close>: the node for one \<open>navPoint\<close>, its children
  parsed by the same function (an empty list when it has none).
\<close>

function parseNcxPoint :: "string \<Rightarrow> node \<Rightarrow> navNode" where
  "parseNcxPoint ncxPath np =
     NavNode (trimmedText (ncxLabelElement np))
             (resolveHref ncxPath (Some (ncxSrc np)))
             (map (parseNcxPoint ncxPath) (childrenNamed ''navPoint'' np))"
  by pat_completeness auto
termination
proof (relation "measure (\<lambda>(p, n). size n)")
  show "wf (measure (\<lambda>(p, n :: node). size n))" by simp
next
  fix ncxPath :: string and np c :: node
  assume "c \<in> set (childrenNamed ''navPoint'' np)"
  then have "size c < size np"
    by (cases np) (auto simp: childrenNamed_def less_Suc_eq_le intro: size_list_estimation')
  then show "((ncxPath, c), (ncxPath, np)) \<in> measure (\<lambda>(p, n). size n)" by simp
qed

definition parseNcxPoints :: "node list \<Rightarrow> string \<Rightarrow> navNode list" where
  "parseNcxPoints points ncxPath = map (parseNcxPoint ncxPath) points"

text \<open>
  \<open>parseNavOl(ol, navPath)\<close> for an \<open>ol\<close> that is there (it returns the empty list for
  \<open>null\<close>, which the callers below write out): a list item without a link is skipped.
\<close>

function parseNavOl :: "node \<Rightarrow> string \<Rightarrow> navNode list" where
  "parseNavOl ol navPath =
     concat (map (\<lambda>li.
        case firstChildNamed ''a'' li of
          None \<Rightarrow> []
        | Some a \<Rightarrow>
            [NavNode (trimmedText (Some a))
                     (resolveHref navPath (Some (attrOrEmpty ''href'' a)))
                     (case firstChildNamed ''ol'' li of
                        None \<Rightarrow> []
                      | Some subOl \<Rightarrow> parseNavOl subOl navPath)])
      (childrenNamed ''li'' ol))"
  by pat_completeness auto
termination
proof (relation "measure (\<lambda>(n, p). size n)")
  show "wf (measure (\<lambda>(n :: node, p :: string). size n))" by simp
next
  fix ol :: node and navPath :: string and li a subOl
  assume li: "li \<in> set (childrenNamed ''li'' ol)" and sub: "firstChildNamed ''ol'' li = Some subOl"
  have "size li < size ol"
    using li by (cases ol) (auto simp: childrenNamed_def less_Suc_eq_le intro: size_list_estimation')
  moreover have "subOl \<in> set (childrenOf li)"
    using sub by (auto simp: firstChildNamed_def find_Some_iff)
  then have "size subOl < size li"
    by (cases li) (auto simp: less_Suc_eq_le intro: size_list_estimation')
  ultimately show "((subOl, navPath), (ol, navPath)) \<in> measure (\<lambda>(n, p). size n)" by simp
qed


section \<open>The package document\<close>

text \<open>
  \<open>DOMParser.parseFromString(text, type)\<close> for the three types the code asks for:
  \<open>application/xml\<close>, \<open>application/xhtml+xml\<close> and \<open>text/html\<close>.
\<close>

record parsers =
  asXml :: "string \<Rightarrow> node"
  asXhtml :: "string \<Rightarrow> node"
  asHtml :: "string \<Rightarrow> node"

record manifestItem =
  itemHref :: "string option"
  mediaType :: string
  properties :: string
  fullPath :: string

text \<open>
  \<open>const manifest = {}\<close> is an ordinary object. It owns the properties assigned to it,
  in creation order. Assigning to the key \<open>__proto__\<close> creates no property: it replaces
  the object's prototype. Reading a key the object does not own goes to the prototype
  chain, which ends in \<open>Object.prototype\<close>.
\<close>

record manifestObject =
  ownProps :: "(string \<times> manifestItem) list"
  protoObj :: "manifestItem option"

definition emptyObject :: manifestObject where
  "emptyObject = \<lparr>ownProps = [], protoObj = None\<rparr>"

text \<open>The property names of \<open>Object.prototype\<close>, apart from the accessor \<open>__proto__\<close>.\<close>

definition objectPrototypeKeys :: "string list" where
  "objectPrototypeKeys =
     [''constructor'', ''hasOwnProperty'', ''isPrototypeOf'', ''propertyIsEnumerable'',
      ''toLocaleString'', ''toString'', ''valueOf'', ''__defineGetter__'',
      ''__defineSetter__'', ''__lookupGetter__'', ''__lookupSetter__'']"

text \<open>
  What \<open>manifest[key]\<close> can give: \<open>undefined\<close>, \<open>null\<close>, a string, an item object, or a
  built-in of \<open>Object.prototype\<close> (a function, or \<open>Object.prototype\<close> itself).
\<close>

datatype jsValue = JUndefined | JNull | JString string | JItem manifestItem | JBuiltin

fun truthy :: "jsValue \<Rightarrow> bool" where
  "truthy JUndefined = False"
| "truthy JNull = False"
| "truthy (JString s) = (s \<noteq> [])"
| "truthy (JItem i) = True"
| "truthy JBuiltin = True"

text \<open>A property key made from what \<open>getAttribute\<close> gave: \<open>null\<close> becomes \<open>"null"\<close>.\<close>

definition propertyKey :: "string option \<Rightarrow> string" where
  "propertyKey k = (case k of None \<Rightarrow> ''null'' | Some s \<Rightarrow> s)"

fun putOwn :: "string \<Rightarrow> manifestItem \<Rightarrow> (string \<times> manifestItem) list \<Rightarrow> (string \<times> manifestItem) list" where
  "putOwn k v [] = [(k, v)]"
| "putOwn k v (p # ps) = (if fst p = k then (k, v) # ps else p # putOwn k v ps)"

text \<open>\<open>manifest[key] = item\<close>.\<close>

definition setProperty :: "manifestObject \<Rightarrow> string \<Rightarrow> manifestItem \<Rightarrow> manifestObject" where
  "setProperty m k v =
     (if k = ''__proto__'' then m\<lparr>protoObj := Some v\<rparr>
      else m\<lparr>ownProps := putOwn k v (ownProps m)\<rparr>)"

definition inherited :: "string \<Rightarrow> jsValue" where
  "inherited k = (if k \<in> set objectPrototypeKeys then JBuiltin else JUndefined)"

text \<open>\<open>manifest[key]\<close>.\<close>

definition getProperty :: "manifestObject \<Rightarrow> string \<Rightarrow> jsValue" where
  "getProperty m k =
     (case map_of (ownProps m) k of
        Some i \<Rightarrow> JItem i
      | None \<Rightarrow>
          if k = ''__proto__'' then (case protoObj m of Some p \<Rightarrow> JItem p | None \<Rightarrow> JBuiltin)
          else (case protoObj m of
                  None \<Rightarrow> inherited k
                | Some p \<Rightarrow>
                    if k = ''href'' then (case itemHref p of None \<Rightarrow> JNull | Some h \<Rightarrow> JString h)
                    else if k = ''mediaType'' then JString (mediaType p)
                    else if k = ''properties'' then JString (properties p)
                    else if k = ''fullPath'' then JString (fullPath p)
                    else inherited k))"

text \<open>
  \<open>Object.values(manifest)\<close>: the own properties whose key is an array index (a canonical
  decimal numeral below \<open>2^32 - 1\<close>) in ascending order, then the others in creation order.
\<close>

definition isDigit :: "char \<Rightarrow> bool" where
  "isDigit c = (c \<in> set ''0123456789'')"

definition numeralValue :: "string \<Rightarrow> nat" where
  "numeralValue s = foldl (\<lambda>n c. 10 * n + (of_char c - 48)) 0 s"

definition isArrayIndex :: "string \<Rightarrow> bool" where
  "isArrayIndex s =
     (s \<noteq> [] \<and> list_all isDigit s \<and> (s = ''0'' \<or> take 1 s \<noteq> ''0'') \<and> numeralValue s < 4294967295)"

definition objectValues :: "manifestObject \<Rightarrow> manifestItem list" where
  "objectValues m =
     map snd (sort_key (\<lambda>p. numeralValue (fst p)) (filter (\<lambda>p. isArrayIndex (fst p)) (ownProps m))
              @ filter (\<lambda>p. \<not> isArrayIndex (fst p)) (ownProps m))"

text \<open>The object stored for one \<open>item\<close> element of the manifest.\<close>

definition manifestItemOf :: "string \<Rightarrow> node \<Rightarrow> manifestItem" where
  "manifestItemOf opfPath el =
     \<lparr>itemHref = getAttribute ''href'' el,
      mediaType = attrOrEmpty ''media-type'' el,
      properties = attrOrEmpty ''properties'' el,
      fullPath = resolveHref opfPath (getAttribute ''href'' el)\<rparr>"

definition buildManifest :: "string \<Rightarrow> node list \<Rightarrow> manifestObject" where
  "buildManifest opfPath items =
     foldl (\<lambda>m el. setProperty m (propertyKey (getAttribute ''id'' el)) (manifestItemOf opfPath el))
       emptyObject items"

text \<open>
  A spine entry \<open>{ id: idref, ...manifest[idref] }\<close>. Spreading an item object copies its
  four fields; spreading a function or \<open>Object.prototype\<close> copies nothing, and the four
  fields are \<open>undefined\<close>; spreading a string copies its characters under index keys that
  nothing reads, and the four fields are \<open>undefined\<close> as well.
\<close>

record spineEntry =
  entryId :: "string option"
  entryItem :: "manifestItem option"

fun spread :: "jsValue \<Rightarrow> manifestItem option" where
  "spread (JItem i) = Some i"
| "spread _ = None"

definition spinePush :: "manifestObject \<Rightarrow> spineEntry list \<Rightarrow> node \<Rightarrow> spineEntry list" where
  "spinePush m spine ref =
     (let idref = getAttribute ''idref'' ref; v = getProperty m (propertyKey idref)
      in if truthy v then spine @ [\<lparr>entryId = idref, entryItem = spread v\<rparr>] else spine)"

definition buildSpine :: "manifestObject \<Rightarrow> node list \<Rightarrow> spineEntry list" where
  "buildSpine m refs = foldl (spinePush m) [] refs"

section \<open>The table of contents\<close>

text \<open>\<open>s.includes(sub)\<close>.\<close>

fun includesStr :: "string \<Rightarrow> string \<Rightarrow> bool" where
  "includesStr sub [] = (sub = [])"
| "includesStr sub (x # xs) = (startsWith sub (x # xs) \<or> includesStr sub xs)"

text \<open>The archive reads made while the table of contents is recovered, in order.\<close>

datatype access = LegacyRead string | ModernRead string

fun isModern :: "access \<Rightarrow> bool" where
  "isModern (ModernRead p) = True"
| "isModern (LegacyRead p) = False"

text \<open>
  The first block: the NCX item, if the manifest has one. A rejected read is caught and
  leaves \<open>toc\<close> empty, as do a missing file and an empty text.
\<close>

definition legacyAttempt :: "parsers \<Rightarrow> archive \<Rightarrow> manifestObject \<Rightarrow> navNode list \<times> access list" where
  "legacyAttempt ps ar m =
     (case find (\<lambda>i. mediaType i = ''application/x-dtbncx+xml'') (objectValues m) of
        None \<Rightarrow> ([], [])
      | Some ncxItem \<Rightarrow>
          ((case readText ar (fullPath ncxItem) of
              Inl e \<Rightarrow> []
            | Inr None \<Rightarrow> []
            | Inr (Some ncxXml) \<Rightarrow>
                if ncxXml = [] then []
                else parseNcxPoints
                       (selectChildOf ''navMap'' ''navPoint'' False (asXml ps ncxXml))
                       (fullPath ncxItem)),
           [LegacyRead (fullPath ncxItem)]))"

text \<open>
  The attribute that an attribute selector \<open>[name=...]\<close> compares. A selector written
  without a namespace selects by local name among the attributes without a namespace.
  In a document the XML parser made, an attribute written with a prefix has a namespace
  and the part after the colon as its local name, so a name with a colon selects no
  attribute there; the HTML parser keeps such a name as it is written.
\<close>

definition selectedAttribute :: "bool \<Rightarrow> string \<Rightarrow> node \<Rightarrow> string option" where
  "selectedAttribute htmlDoc name el =
     (if \<not> htmlDoc \<and> CHR '':'' \<in> set name then None else getAttribute name el)"

text \<open>
  \<open>navDoc.querySelector('nav[epub\\:type="toc"]') || navDoc.querySelector('nav')\<close>, on the
  document the XML parser made of the navigation document.
\<close>

definition navElement :: "node \<Rightarrow> node option" where
  "navElement navDoc =
     (case find (\<lambda>e. tagOf e = Some ''nav'' \<and> selectedAttribute False ''epub:type'' e = Some ''toc'')
             (elementsIn navDoc) of
        Some e \<Rightarrow> Some e
      | None \<Rightarrow> querySelector ''nav'' navDoc)"

text \<open>The second block, entered only when \<open>toc\<close> is empty.\<close>

definition modernAttempt :: "parsers \<Rightarrow> archive \<Rightarrow> manifestObject \<Rightarrow> navNode list \<times> access list" where
  "modernAttempt ps ar m =
     (case find (\<lambda>i. includesStr ''nav'' (properties i)) (objectValues m) of
        None \<Rightarrow> ([], [])
      | Some navItem \<Rightarrow>
          ((case readText ar (fullPath navItem) of
              Inl e \<Rightarrow> []
            | Inr None \<Rightarrow> []
            | Inr (Some navXml) \<Rightarrow>
                if navXml = [] then []
                else (case navElement (asXhtml ps navXml) of
                        None \<Rightarrow> []
                      | Some navEl \<Rightarrow>
                          (case querySelectorBelow ''ol'' navEl of
                             None \<Rightarrow> []
                           | Some ol \<Rightarrow> parseNavOl ol (fullPath navItem)))),
           [ModernRead (fullPath navItem)]))"

definition recoverToc :: "parsers \<Rightarrow> archive \<Rightarrow> manifestObject \<Rightarrow> navNode list \<times> access list" where
  "recoverToc ps ar m =
     (let legacy = legacyAttempt ps ar m
      in if fst legacy = []
         then (let modern = modernAttempt ps ar m in (fst modern, snd legacy @ snd modern))
         else legacy)"

section \<open>Opening a book\<close>

record book =
  spine :: "spineEntry list"
  manifest :: manifestObject
  toc :: "navNode list"

text \<open>\<open>!s\<close> for a value that is \<open>undefined\<close>, \<open>null\<close> or a string.\<close>

definition falsy :: "string option \<Rightarrow> bool" where
  "falsy s = (s = None \<or> s = Some [])"

definition rootfilePath :: "node \<Rightarrow> string option" where
  "rootfilePath containerDoc =
     (case querySelector ''rootfile'' containerDoc of
        None \<Rightarrow> None
      | Some r \<Rightarrow> getAttribute ''full-path'' r)"

definition structureOf :: "parsers \<Rightarrow> archive \<Rightarrow> string \<Rightarrow> string \<Rightarrow> book" where
  "structureOf ps ar opfPath opfXml =
     (let opfDoc = asXml ps opfXml;
          m = buildManifest opfPath (selectInside ''manifest'' ''item'' False opfDoc)
      in \<lparr>spine = buildSpine m (selectInside ''spine'' ''itemref'' False opfDoc),
          manifest = m,
          toc = fst (recoverToc ps ar m)\<rparr>)"

text \<open>
  \<open>parseEpub\<close> of the per-chapter reader and \<open>parseStructure\<close> of the whole-book reader
  differ in one error message.
\<close>

definition parsePackage :: "string \<Rightarrow> parsers \<Rightarrow> archive \<Rightarrow> error + book" where
  "parsePackage noRootfile ps ar =
     (case readText ar ''META-INF/container.xml'' of
        Inl e \<Rightarrow> Inl e
      | Inr containerXml \<Rightarrow>
          if falsy containerXml then Inl (InvalidEpub ''Invalid epub: missing container.xml'')
          else (case rootfilePath (asXml ps (case containerXml of Some x \<Rightarrow> x | None \<Rightarrow> [])) of
                  None \<Rightarrow> Inl (InvalidEpub noRootfile)
                | Some opfPath \<Rightarrow>
                    if opfPath = [] then Inl (InvalidEpub noRootfile)
                    else (case readText ar opfPath of
                            Inl e \<Rightarrow> Inl e
                          | Inr None \<Rightarrow> Inl (InvalidEpub ''Invalid epub: missing OPF'')
                          | Inr (Some opfXml) \<Rightarrow>
                              if opfXml = [] then Inl (InvalidEpub ''Invalid epub: missing OPF'')
                              else Inr (structureOf ps ar opfPath opfXml))))"

definition parseEpub :: "parsers \<Rightarrow> archive \<Rightarrow> error + book" where
  "parseEpub = parsePackage ''Invalid epub: no rootfile found''"

definition parseStructure :: "parsers \<Rightarrow> archive \<Rightarrow> error + book" where
  "parseStructure = parsePackage ''Invalid epub: no rootfile''"

section \<open>The per-chapter reader\<close>

record readerState =
  epubData :: "book option"
  chapterIndex :: int
  showToc :: bool

text \<open>\<open>s.split('#')[0]\<close>.\<close>

definition beforeHash :: "string \<Rightarrow> string" where
  "beforeHash s = (case splitOn CHR ''#'' s of [] \<Rightarrow> [] | x # xs \<Rightarrow> x)"

text \<open>
  \<open>spine.findIndex((s) => s.fullPath.split('#')[0] === basePath)\<close>, from index \<open>i\<close> on.
  The callback raises a \<open>TypeError\<close> on an entry whose \<open>fullPath\<close> is \<open>undefined\<close>.
\<close>

fun findIndexFrom :: "string \<Rightarrow> int \<Rightarrow> spineEntry list \<Rightarrow> error + int" where
  "findIndexFrom basePath i [] = Inr (- 1)"
| "findIndexFrom basePath i (s # ss) =
     (case entryItem s of
        None \<Rightarrow> Inl TypeError
      | Some it \<Rightarrow>
          if beforeHash (fullPath it) = basePath then Inr i
          else findIndexFrom basePath (i + 1) ss)"

definition goToHref :: "readerState \<Rightarrow> string \<Rightarrow> error + readerState" where
  "goToHref st h =
     (case epubData st of
        None \<Rightarrow> Inr st
      | Some d \<Rightarrow>
          (case findIndexFrom (beforeHash h) 0 (spine d) of
             Inl e \<Rightarrow> Inl e
           | Inr idx \<Rightarrow>
               Inr ((if idx \<ge> 0 then st\<lparr>chapterIndex := idx\<rparr> else st)\<lparr>showToc := False\<rparr>)))"

text \<open>What the table-of-contents view shows for a node: \<open>item.label || 'Untitled'\<close>.\<close>

definition shownLabel :: "navNode \<Rightarrow> string" where
  "shownLabel n = (if label n = [] then ''Untitled'' else label n)"


section \<open>The content normalizer\<close>

text \<open>
  \<open>loadChapter\<close> and \<open>loadSpineItem\<close> return a fixed string, or \<open>body.innerHTML\<close>: the
  serialization of what is inside the content root, which the list of those nodes stands
  for here.
\<close>

datatype fragment = Literal string | InnerHTML "node list"

text \<open>
  The XHTML parse, or the HTML parse when the first one reports a \<open>parsererror\<close>; with
  the document, whether it is the HTML parser's.
\<close>

definition parseChapter :: "parsers \<Rightarrow> string \<Rightarrow> bool \<times> node" where
  "parseChapter ps raw =
     (let doc = asXhtml ps raw
      in if querySelector ''parsererror'' doc \<noteq> None then (True, asHtml ps raw) else (False, doc))"

text \<open>\<open>doc.querySelector('body') || doc.documentElement\<close>.\<close>

definition contentRoot :: "node \<Rightarrow> node" where
  "contentRoot doc = (case querySelector ''body'' doc of Some b \<Rightarrow> b | None \<Rightarrow> doc)"

definition asciiLower :: "char \<Rightarrow> char" where
  "asciiLower c =
     (case map_of (zip ''ABCDEFGHIJKLMNOPQRSTUVWXYZ'' ''abcdefghijklmnopqrstuvwxyz'') c of
        None \<Rightarrow> c
      | Some l \<Rightarrow> l)"

text \<open>
  The selector \<open>style, link[rel="stylesheet"]\<close>. The value of \<open>rel\<close> is compared as it is
  written in a document of the XML parser, and without regard to ASCII case in a document
  of the HTML parser.
\<close>

definition isStyleSheet :: "bool \<Rightarrow> node \<Rightarrow> bool" where
  "isStyleSheet htmlDoc n =
     (tagOf n = Some ''style'' \<or>
      (tagOf n = Some ''link'' \<and>
       (case selectedAttribute htmlDoc ''rel'' n of
          None \<Rightarrow> False
        | Some v \<Rightarrow> (if htmlDoc then map asciiLower v else v) = ''stylesheet'')))"

text \<open>
  \<open>el.remove()\<close> for every match in the document. The content root was taken before and
  is held by reference, so what the removals leave below it is what matters: each match
  below it is gone from its parent. Template contents are not searched.
\<close>

fun removeStyleSheets :: "bool \<Rightarrow> node \<Rightarrow> node" where
  "removeStyleSheets htmlDoc (Element t as cs) =
     Element t as (map (removeStyleSheets htmlDoc) (filter (\<lambda>c. \<not> isStyleSheet htmlDoc c) cs))"
| "removeStyleSheets htmlDoc n = n"

text \<open>
  \<open>el.removeAttribute('style')\<close> for one match of \<open>[style]\<close> and for the matches below it;
  a \<open>template\<close> element is a match when it has the attribute, its contents hold none.
\<close>

fun removeStyleAttrs :: "node \<Rightarrow> node" where
  "removeStyleAttrs (Element t as cs) = Element t (removeAttr ''style'' as) (map removeStyleAttrs cs)"
| "removeStyleAttrs (Template as contents) = Template (removeAttr ''style'' as) contents"
| "removeStyleAttrs n = n"

text \<open>
  A loop over \<open>body.querySelectorAll(...)\<close> visits the elements below the content root,
  not the root itself: \<open>step\<close> is what the loop does to a child and to what is below it.
\<close>

fun below :: "(node \<Rightarrow> node) \<Rightarrow> node \<Rightarrow> node" where
  "below step (Element t as cs) = Element t as (map step cs)"
| "below step n = n"

text \<open>The content root after both strippings.\<close>

definition sanitized :: "parsers \<Rightarrow> string \<Rightarrow> node" where
  "sanitized ps raw =
     (let (htmlDoc, doc) = parseChapter ps raw
      in below removeStyleAttrs (removeStyleSheets htmlDoc (contentRoot doc)))"

text \<open>
  The data URL for a reference, when the archive has the file and its bytes can be read;
  \<open>None\<close> when \<open>zip.file\<close> gives \<open>null\<close> or the read is rejected and caught.
  \<open>toDataUrl\<close> stands for \<open>blobToDataUrl\<close>.
\<close>

definition dataUrlFor :: "archive \<Rightarrow> (string \<Rightarrow> string) \<Rightarrow> string \<Rightarrow> string \<Rightarrow> string option" where
  "dataUrlFor ar toDataUrl itemDir ref =
     (case ar (normalizePath (itemDir @ ref)) of
        None \<Rightarrow> None
      | Some Damaged \<Rightarrow> None
      | Some (Readable bytes) \<Rightarrow> Some (toDataUrl bytes))"

text \<open>The body of the loop over \<open>body.querySelectorAll('img')\<close>.\<close>

definition embedImgAttrs ::
  "archive \<Rightarrow> (string \<Rightarrow> string) \<Rightarrow> string \<Rightarrow> (string \<times> string) list \<Rightarrow> (string \<times> string) list" where
  "embedImgAttrs ar toDataUrl itemDir as =
     (case map_of as ''src'' of
        None \<Rightarrow> as
      | Some src \<Rightarrow>
          if src = [] \<or> startsWith ''data:'' src then as
          else (case dataUrlFor ar toDataUrl itemDir src of
                  None \<Rightarrow> as
                | Some d \<Rightarrow> setAttr ''src'' d as))"

text \<open>The loop, on one element and the elements below it; template contents are not visited.\<close>

fun embedImg :: "archive \<Rightarrow> (string \<Rightarrow> string) \<Rightarrow> string \<Rightarrow> node \<Rightarrow> node" where
  "embedImg ar toDataUrl itemDir (Element t as cs) =
     Element t (if t = ''img'' then embedImgAttrs ar toDataUrl itemDir as else as)
       (map (embedImg ar toDataUrl itemDir) cs)"
| "embedImg ar toDataUrl itemDir n = n"

text \<open>\<open>img.getAttribute('xlink:href') || img.getAttribute('href')\<close>.\<close>

definition imageRef :: "(string \<times> string) list \<Rightarrow> string option" where
  "imageRef as =
     (case map_of as ''xlink:href'' of
        None \<Rightarrow> map_of as ''href''
      | Some x \<Rightarrow> if x = [] then map_of as ''href'' else Some x)"

text \<open>The body of the loop over \<open>body.querySelectorAll('image')\<close>.\<close>

definition embedImageAttrs ::
  "archive \<Rightarrow> (string \<Rightarrow> string) \<Rightarrow> string \<Rightarrow> (string \<times> string) list \<Rightarrow> (string \<times> string) list" where
  "embedImageAttrs ar toDataUrl itemDir as =
     (case imageRef as of
        None \<Rightarrow> as
      | Some h \<Rightarrow>
          if h = [] \<or> startsWith ''data:'' h then as
          else (case dataUrlFor ar toDataUrl itemDir h of
                  None \<Rightarrow> as
                | Some d \<Rightarrow> setAttr ''href'' d (setAttr ''xlink:href'' d as)))"

fun embedImage :: "archive \<Rightarrow> (string \<Rightarrow> string) \<Rightarrow> string \<Rightarrow> node \<Rightarrow> node" where
  "embedImage ar toDataUrl itemDir (Element t as cs) =
     Element t (if t = ''image'' then embedImageAttrs ar toDataUrl itemDir as else as)
       (map (embedImage ar toDataUrl itemDir) cs)"
| "embedImage ar toDataUrl itemDir n = n"

text \<open>The content root after the two image loops.\<close>

definition embedded :: "archive \<Rightarrow> (string \<Rightarrow> string) \<Rightarrow> string \<Rightarrow> node \<Rightarrow> node" where
  "embedded ar toDataUrl itemDir root =
     below (embedImage ar toDataUrl itemDir) (below (embedImg ar toDataUrl itemDir) root)"

text \<open>
  The name \<open>zip.file(item.fullPath)\<close> looks up: for an entry without \<open>fullPath\<close> the
  archive is asked for the name \<open>undefined\<close>.
\<close>

definition entryPath :: "spineEntry \<Rightarrow> string" where
  "entryPath e = (case entryItem e of None \<Rightarrow> ''undefined'' | Some it \<Rightarrow> fullPath it)"

text \<open>
  The body shared by \<open>loadChapter\<close> and \<open>loadSpineItem\<close>, which differ in what they return
  for a missing or empty chapter. A rejected read of the chapter is not caught here.
  \<open>dirOf(item.fullPath)\<close> raises a \<open>TypeError\<close> when \<open>fullPath\<close> is \<open>undefined\<close>.
\<close>

definition loadContent ::
  "string \<Rightarrow> parsers \<Rightarrow> (string \<Rightarrow> string) \<Rightarrow> archive \<Rightarrow> spineEntry \<Rightarrow> error + fragment" where
  "loadContent notFound ps toDataUrl ar e =
     (case readText ar (entryPath e) of
        Inl err \<Rightarrow> Inl err
      | Inr None \<Rightarrow> Inr (Literal notFound)
      | Inr (Some raw) \<Rightarrow>
          if raw = [] then Inr (Literal notFound)
          else (case entryItem e of
                  None \<Rightarrow> Inl TypeError
                | Some it \<Rightarrow>
                    Inr (InnerHTML
                      (innerOf (embedded ar toDataUrl (dirOf (fullPath it)) (sanitized ps raw))))))"

definition chapterNotFound :: string where
  \<open>chapterNotFound = ''<p style="color:#9090a0;text-align:center;padding:2em;">Chapter not found.</p>''\<close>

definition loadChapter :: "parsers \<Rightarrow> (string \<Rightarrow> string) \<Rightarrow> archive \<Rightarrow> spineEntry \<Rightarrow> error + fragment" where
  "loadChapter = loadContent chapterNotFound"

definition loadSpineItem :: "parsers \<Rightarrow> (string \<Rightarrow> string) \<Rightarrow> archive \<Rightarrow> spineEntry \<Rightarrow> error + fragment" where
  "loadSpineItem = loadContent []"

subsection \<open>Styling in a fragment, in the words of the description\<close>

text \<open>
  The fragment is markup for an HTML renderer, where names of elements and attributes
  and the keywords of \<open>rel\<close> are read without regard to ASCII case, and \<open>rel\<close> is a list
  of keywords separated by white space.
\<close>

definition lower :: "string \<Rightarrow> string" where
  "lower s = map asciiLower s"

definition relKeywords :: "string \<Rightarrow> string list" where
  "relKeywords v =
     filter (\<lambda>w. w \<noteq> [])
       (splitOn CHR '' ''
          (map (\<lambda>c. if c \<in> set [CHR 0x09, CHR 0x0A, CHR 0x0C, CHR 0x0D] then CHR '' '' else c)
             (lower v)))"

text \<open>A stylesheet-defining element.\<close>

definition spec_styleElement :: "string \<Rightarrow> bool" where
  "spec_styleElement t = (lower t = ''style'')"

text \<open>A stylesheet-link element: a \<open>link\<close> with the keyword \<open>stylesheet\<close> in its \<open>rel\<close>.\<close>

definition spec_stylesheetLink :: "string \<Rightarrow> (string \<times> string) list \<Rightarrow> bool" where
  "spec_stylesheetLink t as =
     (lower t = ''link'' \<and>
      list_ex (\<lambda>a. lower (fst a) = ''rel'' \<and> ''stylesheet'' \<in> set (relKeywords (snd a))) as)"

text \<open>An inline style attribute among the attributes of an element.\<close>

definition spec_styleAttribute :: "(string \<times> string) list \<Rightarrow> bool" where
  "spec_styleAttribute as = list_ex (\<lambda>a. lower (fst a) = ''style'') as"

text \<open>
  A node of a fragment that contains none of the three, at any depth; what is inside a
  \<open>template\<close> is part of the markup.
\<close>

fun spec_styleFree :: "node \<Rightarrow> bool" where
  "spec_styleFree (Element t as cs) =
     (\<not> spec_styleElement t \<and> \<not> spec_stylesheetLink t as \<and> \<not> spec_styleAttribute as
      \<and> list_all spec_styleFree cs)"
| "spec_styleFree (Template as contents) =
     (\<not> spec_styleAttribute as \<and> list_all spec_styleFree contents)"
| "spec_styleFree n = True"

subsection \<open>Image references in a fragment\<close>







subsection \<open>The fate of a reference, in the words of the description\<close>





section \<open>Example books\<close>

text \<open>
  A spine entry for the chapter \<open>OEBPS/text/ch1.xhtml\<close>, a \<open>blobToDataUrl\<close> for PNG bytes
  that are already in base 64, and parsers whose XHTML parse succeeds with a given
  document.
\<close>

definition chapterItem :: manifestItem where
  "chapterItem = \<lparr>itemHref = Some ''text/ch1.xhtml'', mediaType = ''application/xhtml+xml'',
     properties = [], fullPath = ''OEBPS/text/ch1.xhtml''\<rparr>"

definition chapterEntry :: spineEntry where
  "chapterEntry = \<lparr>entryId = Some ''c1'', entryItem = Some chapterItem\<rparr>"

definition pngUrl :: "string \<Rightarrow> string" where
  "pngUrl bytes = ''data:image/png;base64,'' @ bytes"

definition xhtmlOnly :: "node \<Rightarrow> parsers" where
  "xhtmlOnly doc = \<lparr>asXml = Text, asXhtml = (\<lambda>raw. doc), asHtml = Text\<rparr>"

text \<open>
  The list of a navigation document: one entry with a label and a list of two entries
  below it, the second without text in its link, and one list item without a link.
\<close>

definition partOne :: node where
  "partOne = Element ''ol'' []
     [Element ''li'' []
        [Element ''a'' [(''href'', ''ch1.xhtml'')] [Text '' Part 1 ''],
         Element ''ol'' []
           [Element ''li'' [] [Element ''a'' [(''href'', ''ch1.xhtml#s1'')] [Text ''Section 1'']],
            Element ''li'' [] [Element ''a'' [(''href'', ''ch1.xhtml#s2'')] []]]],
      Element ''li'' [] [Element ''span'' [] [Text ''no link'']]]"

text \<open>
  The XML parse of a well-formed chapter with a \<open>style\<close> element in its head and the body

  \<^verbatim>\<open><link rel="Stylesheet" href="../css/a.css"/>\<close>
  \<^verbatim>\<open><p style="color:red" class="c">Hi</p>\<close>
  \<^verbatim>\<open><template><style>p{color:red}</style><p style="color:red">Ho</p></template>\<close>
\<close>

definition styledChapter :: node where
  "styledChapter = Element ''html'' []
     [Element ''head'' [] [Element ''style'' [] [Text ''p{color:red}'']],
      Element ''body'' []
        [Element ''link'' [(''rel'', ''Stylesheet''), (''href'', ''../css/a.css'')] [],
         Element ''p'' [(''style'', ''color:red''), (''class'', ''c'')] [Text ''Hi''],
         Template []
           [Element ''style'' [] [Text ''p{color:red}''],
            Element ''p'' [(''style'', ''color:red'')] [Text ''Ho'']]]]"


definition picturesArchive :: archive where
  "picturesArchive = [''OEBPS/text/ch1.xhtml'' \<mapsto> Readable ''chapter'',
     ''OEBPS/images/a.png'' \<mapsto> Readable ''iVBORw0KGgo='']"

text \<open>
  A chapter with an \<open>img\<close> inside a \<open>template\<close> and an \<open>img\<close> whose reference begins
  with \<open>/\<close>.
\<close>

definition templateChapter :: node where
  "templateChapter = Element ''html'' []
     [Element ''body'' []
        [Template [] [Element ''img'' [(''src'', ''../images/a.png'')] []],
         Element ''img'' [(''src'', ''/OEBPS/images/a.png'')] []]]"


section \<open>Properties of the path helpers\<close>

lemma startsWith_slash: "startsWith ''/'' s \<longleftrightarrow> (\<exists>t. s = CHR ''/'' # t)"
  by (cases s) (auto simp: startsWith_def)

lemma splitOn_not_Nil: "splitOn c s \<noteq> []"
  by (induction s) (auto split: list.splits)

lemma splitOn_append_sep: "splitOn c (xs @ c # ys) = splitOn c xs @ splitOn c ys"
proof (induction xs)
  case Nil
  show ?case by simp
next
  case (Cons x xs)
  show ?case
  proof (cases "x = c")
    case True
    with Cons show ?thesis by simp
  next
    case False
    obtain y ys' where s: "splitOn c xs = y # ys'"
      using splitOn_not_Nil [of c xs] by (cases "splitOn c xs") auto
    with False Cons show ?thesis by simp
  qed
qed

lemma splitOn_no_sep: "p \<in> set (splitOn c s) \<Longrightarrow> c \<notin> set p"
proof (induction s arbitrary: p)
  case Nil
  then show ?case by simp
next
  case (Cons x xs)
  obtain y ys where s: "splitOn c xs = y # ys"
    using splitOn_not_Nil [of c xs] by (cases "splitOn c xs") auto
  have y: "c \<notin> set y" and ys: "\<And>q. q \<in> set ys \<Longrightarrow> c \<notin> set q"
    using Cons.IH s by auto
  show ?case
  proof (cases "x = c")
    case True
    with Cons.prems s y ys show ?thesis by auto
  next
    case False
    with Cons.prems s y ys show ?thesis by auto
  qed
qed

lemma splitOn_free: "c \<notin> set s \<Longrightarrow> splitOn c s = [s]"
  by (induction s) auto

lemma pathParts_append_slash: "pathParts (x @ CHR ''/'' # y) = pathParts x @ pathParts y"
  by (simp add: pathParts_def splitOn_append_sep)

lemma pathParts_no_slash: "p \<in> set (pathParts s) \<Longrightarrow> p \<noteq> [] \<and> CHR ''/'' \<notin> set p"
  by (auto simp: pathParts_def dest: splitOn_no_sep)

lemma normalizeLoop_foldl:
  "\<forall>p \<in> set ps. p \<noteq> [] \<Longrightarrow> normalizeLoop st ps = foldl spec_step st ps"
  by (induction ps arbitrary: st) (auto simp: spec_step_def)

lemma foldl_spec_step_filter:
  "foldl spec_step st (filter (\<lambda>p. p \<noteq> []) xs) = foldl spec_step st xs"
  by (induction xs arbitrary: st) (auto simp: spec_step_def)

lemma normalizePath_spec: "normalizePath path = spec_normalize path"
  by (simp add: normalizePath_def spec_normalize_def pathParts_def
      normalizeLoop_foldl foldl_spec_step_filter)

lemma lastIndexFrom_absent: "c \<notin> set xs \<Longrightarrow> lastIndexFrom c xs i f = f"
  by (induction xs arbitrary: i f) auto

lemma spec_dirOf_Cons:
  "spec_dirOf (x # xs) =
     (if CHR ''/'' \<in> set xs then x # spec_dirOf xs else if x = CHR ''/'' then [x] else [])"
  by (auto simp: spec_dirOf_def dropWhile_append)

lemma spec_dirOf_Nil [simp]: "spec_dirOf [] = []"
  by (simp add: spec_dirOf_def)

lemma lastIndexFrom_present:
  "CHR ''/'' \<in> set xs \<Longrightarrow>
     lastIndexFrom CHR ''/'' xs i f = i + int (length (spec_dirOf xs)) - 1"
proof (induction xs arbitrary: i f)
  case Nil
  then show ?case by simp
next
  case (Cons x xs)
  show ?case
  proof (cases "CHR ''/'' \<in> set xs")
    case True
    then show ?thesis using Cons.IH [OF True] by (simp add: spec_dirOf_Cons)
  next
    case False
    with Cons.prems have "x = CHR ''/''" by simp
    with False show ?thesis by (simp add: spec_dirOf_Cons lastIndexFrom_absent)
  qed
qed

lemma spec_dirOf_absent: "CHR ''/'' \<notin> set xs \<Longrightarrow> spec_dirOf xs = []"
  by (induction xs) (auto simp: spec_dirOf_Cons)

lemma take_spec_dirOf: "take (length (spec_dirOf xs)) xs = spec_dirOf xs"
  by (induction xs) (auto simp: spec_dirOf_Cons)

lemma dirOf_spec: "dirOf path = spec_dirOf path"
proof (cases "CHR ''/'' \<in> set path")
  case True
  then have "lastIndexOf CHR ''/'' path = int (length (spec_dirOf path)) - 1"
    by (simp add: lastIndexOf_def lastIndexFrom_present)
  moreover have "length (spec_dirOf path) > 0"
    using True by (induction path) (auto simp: spec_dirOf_Cons)
  ultimately show ?thesis
    by (simp add: dirOf_def Let_def take_spec_dirOf)
next
  case False
  then show ?thesis
    by (simp add: dirOf_def lastIndexOf_def lastIndexFrom_absent spec_dirOf_absent)
qed

lemma normalizeLoop_append:
  "normalizeLoop st (xs @ ys) = normalizeLoop (normalizeLoop st xs) ys"
  by (induction xs arbitrary: st) auto

lemma normalizeLoop_plain:
  "\<forall>s \<in> set ps. plainSeg s \<Longrightarrow> normalizeLoop st ps = st @ ps"
  by (induction ps arbitrary: st) (auto simp: plainSeg_def)

lemma plainSeg_butlast: "\<forall>s \<in> set st. plainSeg s \<Longrightarrow> \<forall>s \<in> set (butlast st). plainSeg s"
  by (auto dest: in_set_butlastD)

lemma plainSeg_snoc:
  "\<forall>s \<in> set st. plainSeg s \<Longrightarrow> p \<noteq> [] \<Longrightarrow> CHR ''/'' \<notin> set p \<Longrightarrow> p \<noteq> ''.'' \<Longrightarrow> p \<noteq> ''..''
    \<Longrightarrow> \<forall>s \<in> set (st @ [p]). plainSeg s"
  unfolding plainSeg_def by simp

lemma normalizeLoop_keeps_plain:
  "\<forall>s \<in> set st. plainSeg s \<Longrightarrow> \<forall>p \<in> set ps. p \<noteq> [] \<and> CHR ''/'' \<notin> set p \<Longrightarrow>
     \<forall>s \<in> set (normalizeLoop st ps). plainSeg s"
proof (induction ps arbitrary: st)
  case Nil
  then show ?case by simp
next
  case (Cons p ps)
  have rest: "\<forall>p \<in> set ps. p \<noteq> [] \<and> CHR ''/'' \<notin> set p" and p: "p \<noteq> []" "CHR ''/'' \<notin> set p"
    using Cons.prems(2) by simp_all
  show ?case
  proof (cases "p = ''..''")
    case True
    then show ?thesis
      using Cons.IH [OF plainSeg_butlast [OF Cons.prems(1)] rest] by simp
  next
    case up: False
    show ?thesis
    proof (cases "p = ''.''")
      case True
      then show ?thesis using Cons.IH [OF Cons.prems(1) rest] by simp
    next
      case False
      then show ?thesis
        using Cons.IH [OF plainSeg_snoc [OF Cons.prems(1) p False up] rest] up by simp
    qed
  qed
qed

lemma joinWith_snoc: "S \<noteq> [] \<Longrightarrow> joinWith sep (S @ [s]) = joinWith sep S @ sep @ s"
  by (induction sep S rule: joinWith.induct) auto

lemma pathParts_plain: "plainSeg s \<Longrightarrow> pathParts s = [s]"
  by (simp add: pathParts_def plainSeg_def splitOn_free)

lemma pathParts_join:
  "\<forall>s \<in> set S. plainSeg s \<Longrightarrow> pathParts (joinWith ''/'' S) = S"
proof (induction S rule: rev_induct)
  case Nil
  show ?case by (simp add: pathParts_def)
next
  case (snoc s S)
  show ?case
  proof (cases "S = []")
    case True
    with snoc.prems show ?thesis by (simp add: pathParts_plain)
  next
    case False
    with snoc show ?thesis
      by (simp add: joinWith_snoc pathParts_append_slash pathParts_plain)
  qed
qed

lemma spec_dirOf_append_plain:
  "CHR ''/'' \<notin> set s \<Longrightarrow> spec_dirOf (x @ CHR ''/'' # s) = x @ ''/''"
  by (auto simp: spec_dirOf_def dropWhile_append)

lemma pathParts_dir_join:
  assumes "\<forall>s \<in> set S. plainSeg s"
  shows "pathParts (dirOf (joinWith ''/'' S) @ b) = butlast S @ pathParts b"
proof (cases S rule: rev_cases)
  case Nil
  then show ?thesis by (simp add: dirOf_spec)
next
  case (snoc S' s)
  with assms have s: "CHR ''/'' \<notin> set s" and S': "\<forall>s \<in> set S'. plainSeg s"
    by (auto simp: plainSeg_def)
  show ?thesis
  proof (cases "S' = []")
    case True
    with snoc s show ?thesis by (simp add: dirOf_spec spec_dirOf_absent)
  next
    case False
    with snoc s have "dirOf (joinWith ''/'' S) = joinWith ''/'' S' @ ''/''"
      by (simp add: dirOf_spec joinWith_snoc spec_dirOf_append_plain)
    with snoc S' show ?thesis
      by (simp add: pathParts_append_slash pathParts_join)
  qed
qed

lemma normalizePath_plain_stack:
  "\<forall>s \<in> set (normalizeLoop [] (pathParts x)). plainSeg s"
  using normalizeLoop_keeps_plain [of "[]" "pathParts x"] pathParts_no_slash by auto

text \<open>
  C6 (as amended). For every base path and every non-empty reference, \<open>resolveHref\<close>
  normalizes the reference alone when it begins with \<open>/\<close> and otherwise normalizes the
  directory of the base path (its text up to and including the last \<open>/\<close>) followed by
  the reference; normalization splits on \<open>/\<close>, drops empty and \<open>.\<close> segments, and
  lets each \<open>..\<close> remove the segment retained last, which changes nothing when no
  segment is retained.
\<close>

theorem resolveHref_follows_rules:
  assumes "reference \<noteq> []"
  shows "resolveHref basePath (Some reference) = spec_resolve basePath reference"
  using assms by (simp add: resolveHref_def spec_resolve_def normalizePath_spec dirOf_spec)

theorem resolveHref_follows_rules_witness:
  "''../../x/./y.html'' \<noteq> [] \<and>
   resolveHref ''OEBPS/content.opf'' (Some ''../../x/./y.html'') = ''x/y.html'' \<and>
   spec_resolve ''OEBPS/content.opf'' ''../../x/./y.html'' = ''x/y.html''"
  using resolveHref_follows_rules [of "''../../x/./y.html''" "''OEBPS/content.opf''"]
  by (simp add: spec_resolve_def spec_normalize_def spec_step_def spec_dirOf_def startsWith_def)

text \<open>
  C6 as stated fails at the empty reference: the rules give the directory of the base
  path, the code returns the empty string.
\<close>

theorem resolveHref_empty_reference_counterexample:
  "resolveHref ''OEBPS/content.opf'' (Some []) = [] \<and>
   spec_resolve ''OEBPS/content.opf'' [] = ''OEBPS''"
  by (simp add: resolveHref_def spec_resolve_def spec_normalize_def spec_step_def
      spec_dirOf_def startsWith_def)

lemma dir_shape: "spec_dirOf p = [] \<or> (\<exists>y. spec_dirOf p = y @ ''/'')"
proof (cases "dropWhile (\<lambda>c. c \<noteq> CHR ''/'') (rev p)")
  case Nil
  then show ?thesis by (simp add: spec_dirOf_def)
next
  case (Cons c t)
  then have "c = CHR ''/''" using hd_dropWhile [of "\<lambda>c. c \<noteq> CHR ''/''" "rev p"] by auto
  with Cons show ?thesis by (simp add: spec_dirOf_def)
qed

lemma pathParts_dir_prefix:
  assumes "y = [] \<or> (\<exists>y'. y = y' @ ''/'')"
  shows "pathParts (y @ z) = pathParts y @ pathParts z"
proof -
  have e: "pathParts [] = []" by (simp add: pathParts_def)
  from assms show ?thesis
  proof
    assume "y = []" then show ?thesis by (simp add: e)
  next
    assume "\<exists>y'. y = y' @ ''/''"
    then obtain y' where "y = y' @ ''/''" ..
    then show ?thesis
      using pathParts_append_slash [of y' z] pathParts_append_slash [of y' "[]"] by (simp add: e)
  qed
qed


lemma staysBelow_filter:
  "staysBelow n (filter (\<lambda>p. p \<noteq> []) segs) = staysBelow n segs"
  by (induction segs arbitrary: n) auto

lemma noOverPop_parts: "noOverPop path = staysBelow 0 (pathParts path)"
  by (simp add: noOverPop_def pathParts_def staysBelow_filter)

lemma normalizeLoop_above:
  "\<forall>p \<in> set ps. p \<noteq> [] \<Longrightarrow> staysBelow (length u) ps \<Longrightarrow>
     normalizeLoop (t @ u) ps = t @ normalizeLoop u ps"
proof (induction ps arbitrary: u)
  case Nil
  show ?case by simp
next
  case (Cons p ps)
  show ?case
  proof (cases "p = ''..''")
    case True
    with Cons.prems have u: "u \<noteq> []" and s: "staysBelow (length (butlast u)) ps" by auto
    from u have "butlast (t @ u) = t @ butlast u" by (simp add: butlast_append)
    with True Cons.IH [OF _ s] Cons.prems(1) show ?thesis by simp
  next
    case up: False
    show ?thesis
    proof (cases "p = ''.''")
      case True
      with Cons.prems Cons.IH [of u] show ?thesis by simp
    next
      case False
      with up Cons.prems have "staysBelow (length (u @ [p])) ps" by simp
      with up False Cons.IH [of "u @ [p]"] Cons.prems(1) show ?thesis by simp
    qed
  qed
qed

lemma normalizeLoop_from:
  assumes "staysBelow 0 (pathParts q)"
  shows "normalizeLoop t (pathParts q) = t @ normalizeLoop [] (pathParts q)"
  using normalizeLoop_above [of "pathParts q" "[]" t] assms pathParts_no_slash [of _ q] by auto

lemma joinWith_plain:
  assumes "S \<noteq> []" and "\<forall>s \<in> set S. plainSeg s"
  shows "joinWith ''/'' S \<noteq> [] \<and> \<not> startsWith ''/'' (joinWith ''/'' S)"
proof (cases S)
  case Nil
  with assms show ?thesis by simp
next
  case (Cons s rest)
  with assms(2) obtain c cs where s: "s = c # cs" and c: "c \<noteq> CHR ''/''"
    by (cases s) (auto simp: plainSeg_def)
  have "\<exists>tl. joinWith ''/'' (s # rest) = c # tl"
    using s by (cases rest) auto
  with Cons c show ?thesis by (auto simp: startsWith_def)
qed

lemma dirOf_file:
  assumes "plainSeg f" and "d = [] \<or> (\<exists>d'. d = d' @ ''/'')"
  shows "dirOf (d @ f) = d"
  using assms by (auto simp: dirOf_spec spec_dirOf_absent spec_dirOf_append_plain plainSeg_def)

lemma dirOf_shape: "dirOf p = [] \<or> (\<exists>y. dirOf p = y @ ''/'')"
  using dir_shape [of p] by (simp add: dirOf_spec)

text \<open>The stack after the directory of the base, and what the two sides of the law pile on it.\<close>

lemma nested_resolution:
  assumes f: "plainSeg f" and d: "d = [] \<or> (\<exists>d'. d = d' @ ''/'')"
  shows "normalizePath (dirOf (normalizePath (dirOf base @ d @ f)) @ b)
     = joinWith ''/'' (normalizeLoop (normalizeLoop [] (pathParts (dirOf base))) (pathParts (d @ b)))"
proof -
  let ?B = "normalizeLoop [] (pathParts (dirOf base))"
  let ?T = "normalizeLoop ?B (pathParts d)"
  have bd: "dirOf base @ d = [] \<or> (\<exists>y. dirOf base @ d = y @ ''/'')"
    using dirOf_shape [of base] d by auto
  have parts: "pathParts (dirOf base @ d @ f) = pathParts (dirOf base) @ pathParts d @ [f]"
    using pathParts_dir_prefix [OF bd, of f] pathParts_dir_prefix [OF dirOf_shape, of base d]
    by (simp add: pathParts_plain [OF f])
  have fne: "f \<noteq> ''..''" "f \<noteq> ''.''" using f by (auto simp: plainSeg_def)
  have S: "normalizeLoop [] (pathParts (dirOf base @ d @ f)) = ?T @ [f]"
    unfolding parts using fne by (simp add: normalizeLoop_append)
  have plainS: "\<forall>s \<in> set (?T @ [f]). plainSeg s"
    using normalizePath_plain_stack [of "dirOf base @ d @ f"] unfolding S .
  then have plainT: "\<forall>s \<in> set ?T. plainSeg s" by simp
  have "pathParts (dirOf (joinWith ''/'' (?T @ [f])) @ b) = butlast (?T @ [f]) @ pathParts b"
    by (rule pathParts_dir_join [OF plainS])
  then have "pathParts (dirOf (normalizePath (dirOf base @ d @ f)) @ b) = ?T @ pathParts b"
    by (simp add: normalizePath_def S)
  then have "normalizeLoop [] (pathParts (dirOf (normalizePath (dirOf base @ d @ f)) @ b))
      = normalizeLoop ?T (pathParts b)"
    using normalizeLoop_plain [OF plainT, of "[]"] by (simp add: normalizeLoop_append)
  also have "\<dots> = normalizeLoop ?B (pathParts (d @ b))"
    unfolding pathParts_dir_prefix [OF d, of b] by (simp add: normalizeLoop_append)
  finally show ?thesis by (simp add: normalizePath_def)
qed

lemma combined_resolution:
  assumes C: "normalizePath q \<noteq> []"
  shows "resolveHref base (Some (normalizePath q))
     = joinWith ''/'' (normalizeLoop [] (pathParts (dirOf base)) @ normalizeLoop [] (pathParts q))"
proof -
  let ?B = "normalizeLoop [] (pathParts (dirOf base))"
  let ?C = "normalizeLoop [] (pathParts q)"
  have plainC: "\<forall>s \<in> set ?C. plainSeg s" by (rule normalizePath_plain_stack)
  have Cne: "?C \<noteq> []" using C by (auto simp: normalizePath_def)
  have rel: "\<not> startsWith ''/'' (normalizePath q)"
    using joinWith_plain [OF Cne plainC] by (simp add: normalizePath_def)
  have "pathParts (dirOf base @ normalizePath q) = pathParts (dirOf base) @ ?C"
    using pathParts_dir_prefix [OF dirOf_shape, of base "normalizePath q"]
    by (simp add: normalizePath_def pathParts_join [OF plainC])
  then have "normalizePath (dirOf base @ normalizePath q) = joinWith ''/'' (normalizeLoop ?B ?C)"
    by (simp add: normalizePath_def [of "dirOf base @ normalizePath q"] normalizeLoop_append)
  also have "normalizeLoop ?B ?C = ?B @ ?C" by (rule normalizeLoop_plain [OF plainC])
  finally show ?thesis using C rel by (simp add: resolveHref_def)
qed

text \<open>
  C7 (as amended). For every base path, every relative reference \<open>a\<close> that ends in a plain
  file name (\<open>a\<close> is a directory part \<open>d\<close>, empty or ending in \<open>/\<close>, and a name \<open>f\<close> that
  is not \<open>.\<close> or \<open>..\<close>) and every relative reference \<open>b\<close>: when the path of \<open>b\<close> from the
  directory of \<open>a\<close> does not over-pop its root, and \<open>b\<close> resolved against \<open>a\<close> is not the
  empty path unless \<open>b\<close> is empty, resolving \<open>b\<close> against the result of resolving \<open>a\<close>
  against the base equals resolving against the base the combined relative path, \<open>b\<close>
  resolved against \<open>a\<close>.
\<close>

theorem resolveHref_assoc:
  assumes "plainSeg f" and "d = [] \<or> (\<exists>d'. d = d' @ ''/'')"
    and "\<not> startsWith ''/'' (d @ f)" and "\<not> startsWith ''/'' b"
    and "noOverPop (dirOf (d @ f) @ b)"
    and "b = [] \<or> resolveHref (d @ f) (Some b) \<noteq> []"
  shows "resolveHref (resolveHref base (Some (d @ f))) (Some b)
       = resolveHref base (Some (resolveHref (d @ f) (Some b)))"
proof (cases "b = []")
  case True
  then show ?thesis by (simp add: resolveHref_def)
next
  case False
  have fne: "f \<noteq> []" using assms(1) by (simp add: plainSeg_def)
  have dir: "dirOf (d @ f) = d" by (rule dirOf_file [OF assms(1,2)])
  have comb: "resolveHref (d @ f) (Some b) = normalizePath (d @ b)"
    using False assms(4) dir by (simp add: resolveHref_def)
  with False assms(6) have ne: "normalizePath (d @ b) \<noteq> []" by simp
  have stay: "staysBelow 0 (pathParts (d @ b))"
    using assms(5) dir by (simp add: noOverPop_parts)
  have "resolveHref (resolveHref base (Some (d @ f))) (Some b)
      = normalizePath (dirOf (normalizePath (dirOf base @ d @ f)) @ b)"
    using False fne assms(3,4) by (simp add: resolveHref_def)
  also have "\<dots> = joinWith ''/'' (normalizeLoop (normalizeLoop [] (pathParts (dirOf base))) (pathParts (d @ b)))"
    by (rule nested_resolution [OF assms(1,2)])
  also have "\<dots> = joinWith ''/'' (normalizeLoop [] (pathParts (dirOf base)) @ normalizeLoop [] (pathParts (d @ b)))"
    using normalizeLoop_from [OF stay, of "normalizeLoop [] (pathParts (dirOf base))"]
    by (simp only:)
  also have "\<dots> = resolveHref base (Some (normalizePath (d @ b)))"
    by (rule combined_resolution [OF ne, symmetric])
  finally show ?thesis by (simp add: comb)
qed

lemmas path_eval =
  resolveHref_def normalizePath_def pathParts_def dirOf_def lastIndexOf_def startsWith_def

theorem resolveHref_assoc_witness:
  "plainSeg ''ch1.xhtml'' \<and> \<not> startsWith ''/'' (''text/'' @ ''ch1.xhtml'') \<and>
   \<not> startsWith ''/'' ''../images/a.png'' \<and>
   noOverPop (dirOf (''text/'' @ ''ch1.xhtml'') @ ''../images/a.png'') \<and>
   resolveHref (''text/'' @ ''ch1.xhtml'') (Some ''../images/a.png'') = ''images/a.png'' \<and>
   resolveHref (resolveHref ''OEBPS/content.opf'' (Some (''text/'' @ ''ch1.xhtml''))) (Some ''../images/a.png'')
     = ''OEBPS/images/a.png'' \<and>
   resolveHref ''OEBPS/content.opf'' (Some (resolveHref (''text/'' @ ''ch1.xhtml'') (Some ''../images/a.png'')))
     = ''OEBPS/images/a.png''"
proof -
  have p: "plainSeg ''ch1.xhtml''" by (simp add: plainSeg_def)
  have d: "''text/'' = [] \<or> (\<exists>d'. ''text/'' = d' @ ''/'')" by simp
  have r: "\<not> startsWith ''/'' (''text/'' @ ''ch1.xhtml'')" "\<not> startsWith ''/'' ''../images/a.png''"
    by (simp_all add: startsWith_def)
  have n: "noOverPop (dirOf (''text/'' @ ''ch1.xhtml'') @ ''../images/a.png'')"
    by (simp add: noOverPop_def dirOf_def lastIndexOf_def)
  have c: "resolveHref (''text/'' @ ''ch1.xhtml'') (Some ''../images/a.png'') = ''images/a.png''"
    by (simp add: path_eval)
  then have e: "''../images/a.png'' = [] \<or> resolveHref (''text/'' @ ''ch1.xhtml'') (Some ''../images/a.png'') \<noteq> []"
    by simp
  have l: "resolveHref (resolveHref ''OEBPS/content.opf'' (Some (''text/'' @ ''ch1.xhtml''))) (Some ''../images/a.png'')
     = ''OEBPS/images/a.png''"
    by (simp add: path_eval)
  have x: "resolveHref ''OEBPS/content.opf'' (Some (resolveHref (''text/'' @ ''ch1.xhtml'') (Some ''../images/a.png'')))
     = ''OEBPS/images/a.png''"
    by (rule trans [OF resolveHref_assoc [OF p d r n e, symmetric] l])
  show ?thesis by (insert p r n c l x, intro conjI, assumption+)
qed

text \<open>
  C7 as stated fails for relative references that do not over-pop the root: when \<open>a\<close>
  names a directory (\<open>text/\<close>), the result of resolving it is read as a file and \<open>b\<close>
  lands one level up; and when \<open>b\<close> resolved against \<open>a\<close> is the empty path (\<open>.\<close> against
  \<open>ch1.xhtml\<close>), resolving the combined path gives the empty string.
\<close>

theorem resolveHref_assoc_counterexample:
  "\<not> startsWith ''/'' ''text/'' \<and> \<not> startsWith ''/'' ''a.png'' \<and>
   noOverPop ''text/'' \<and> noOverPop ''a.png'' \<and> noOverPop (dirOf ''text/'' @ ''a.png'') \<and>
   resolveHref (resolveHref ''OEBPS/content.opf'' (Some ''text/'')) (Some ''a.png'') = ''OEBPS/a.png'' \<and>
   resolveHref ''OEBPS/content.opf'' (Some (resolveHref ''text/'' (Some ''a.png''))) = ''OEBPS/text/a.png'' \<and>
   \<not> startsWith ''/'' ''ch1.xhtml'' \<and> \<not> startsWith ''/'' ''.'' \<and>
   noOverPop ''ch1.xhtml'' \<and> noOverPop ''.'' \<and> noOverPop (dirOf ''ch1.xhtml'' @ ''.'') \<and>
   resolveHref (resolveHref ''OEBPS/content.opf'' (Some ''ch1.xhtml'')) (Some ''.'') = ''OEBPS'' \<and>
   resolveHref ''OEBPS/content.opf'' (Some (resolveHref ''ch1.xhtml'' (Some ''.''))) = []"
  by (simp add: path_eval noOverPop_def)

text \<open>
  C10. For every base path, resolving an absent or an empty reference gives the empty
  string.
\<close>

theorem resolveHref_empty:
  "resolveHref basePath None = [] \<and> resolveHref basePath (Some []) = []"
  by (simp add: resolveHref_def)

section \<open>Navigation labels\<close>

declare parseNcxPoint.simps [simp del] parseNavOl.simps [simp del]

lemma label_link_items:
  "map label (concat (map (\<lambda>li. case firstChildNamed ''a'' li of None \<Rightarrow> []
        | Some a \<Rightarrow> [NavNode (trimmedText (Some a)) (target a) (subs li)]) lis)) =
     map (\<lambda>a. trim (textContent a)) (List.map_filter (firstChildNamed ''a'') lis)"
  by (induction lis) (auto simp: List.map_filter_simps trimmedText_def split: option.splits)

lemma label_parseNavOl:
  "map label (parseNavOl ol navPath) =
     map (\<lambda>a. trim (textContent a)) (List.map_filter (firstChildNamed ''a'') (childrenNamed ''li'' ol))"
  by (subst parseNavOl.simps) (rule label_link_items)

lemma subitems_link_items:
  "map subitems (concat (map (\<lambda>li. case firstChildNamed ''a'' li of None \<Rightarrow> []
        | Some a \<Rightarrow> [NavNode (name a) (target a) (subs li)]) lis)) =
     map subs (filter (\<lambda>li. firstChildNamed ''a'' li \<noteq> None) lis)"
  by (induction lis) (auto split: option.splits)

lemma subitems_parseNavOl:
  "map subitems (parseNavOl ol navPath) =
     map (\<lambda>li. case firstChildNamed ''ol'' li of None \<Rightarrow> [] | Some sub \<Rightarrow> parseNavOl sub navPath)
       (filter (\<lambda>li. firstChildNamed ''a'' li \<noteq> None) (childrenNamed ''li'' ol))"
  by (subst parseNavOl.simps) (rule subitems_link_items)

text \<open>
  C9 (as amended). For both navigation sources, the label of each produced node is the
  trimmed text of its entry (the first \<open>navLabel > text\<close> of a \<open>navPoint\<close>, the link of a
  list item), and the empty string when the source label is absent or empty. The nodes
  below a node are produced the same way: from the \<open>navPoint\<close> children of a \<open>navPoint\<close>,
  and from the first list inside a list item that has a link (none when it has no
  list). The contents view shows \<open>Untitled\<close> for a node with an empty label.
\<close>

theorem navNode_labels:
  "label (parseNcxPoint ncxPath np) =
      (case ncxLabelElement np of None \<Rightarrow> [] | Some t \<Rightarrow> trim (textContent t))
   \<and> subitems (parseNcxPoint ncxPath np) = parseNcxPoints (childrenNamed ''navPoint'' np) ncxPath
   \<and> map label (parseNavOl ol navPath) =
      map (\<lambda>a. trim (textContent a)) (List.map_filter (firstChildNamed ''a'') (childrenNamed ''li'' ol))
   \<and> map subitems (parseNavOl ol navPath) =
      map (\<lambda>li. case firstChildNamed ''ol'' li of None \<Rightarrow> [] | Some sub \<Rightarrow> parseNavOl sub navPath)
        (filter (\<lambda>li. firstChildNamed ''a'' li \<noteq> None) (childrenNamed ''li'' ol))
   \<and> shownLabel (NavNode [] h ns) = ''Untitled''"
  by (simp add: parseNcxPoint.simps [of ncxPath np] trimmedText_def parseNcxPoints_def
      label_parseNavOl subitems_parseNavOl shownLabel_def)

theorem navNode_labels_witness:
  "label (parseNcxPoint ''OEBPS/toc.ncx''
      (Element ''navPoint'' [] [Element ''navLabel'' [] [Element ''text'' [] [Text '' Ch 1 '']]])) = ''Ch 1'' \<and>
   map label (parseNavOl partOne ''OEBPS/nav.xhtml'') = [''Part 1''] \<and>
   map (map label) (map subitems (parseNavOl partOne ''OEBPS/nav.xhtml'')) = [[''Section 1'', []]] \<and>
   shownLabel (NavNode [] ''OEBPS/ch1.xhtml'' []) = ''Untitled''"
  using navNode_labels [of "''OEBPS/toc.ncx''"
      "Element ''navPoint'' [] [Element ''navLabel'' [] [Element ''text'' [] [Text '' Ch 1 '']]]"
      partOne "''OEBPS/nav.xhtml''" "''OEBPS/ch1.xhtml''" "[]"]
    label_parseNavOl [of "Element ''ol'' []
           [Element ''li'' [] [Element ''a'' [(''href'', ''ch1.xhtml#s1'')] [Text ''Section 1'']],
            Element ''li'' [] [Element ''a'' [(''href'', ''ch1.xhtml#s2'')] []]]" "''OEBPS/nav.xhtml''"]
  by (simp add: partOne_def ncxLabelElement_def childrenNamed_def firstChildNamed_def
      List.map_filter_simps trim_def isWhite_def)

text \<open>
  C9 as stated fails: an entry without a label, in either source, produces a node whose
  label is the empty string, not \<open>Untitled\<close>.
\<close>

theorem navNode_labels_counterexample:
  "map label (parseNcxPoints [Element ''navPoint'' [] []] ''OEBPS/toc.ncx'') = [[]] \<and>
   map label (parseNavOl (Element ''ol'' [] [Element ''li'' [] [Element ''a'' [(''href'', ''ch1.xhtml'')] []]])
      ''OEBPS/nav.xhtml'') = [[]] \<and>
   [] \<noteq> ''Untitled''"
  by (simp add: parseNcxPoints_def parseNcxPoint.simps parseNavOl.simps [of "Element ''ol'' [] [Element ''li'' [] [Element ''a'' [(''href'', ''ch1.xhtml'')] []]]"] ncxLabelElement_def childrenNamed_def
      firstChildNamed_def trimmedText_def trim_def)

section \<open>The spine\<close>

lemma spinePush_known:
  assumes "protoObj m = None" and "propertyKey (getAttribute ''idref'' r) \<notin> set (''__proto__'' # objectPrototypeKeys)"
  shows "spinePush m sp r =
     sp @ (case map_of (ownProps m) (propertyKey (getAttribute ''idref'' r)) of
             None \<Rightarrow> []
           | Some i \<Rightarrow> [\<lparr>entryId = getAttribute ''idref'' r, entryItem = Some i\<rparr>])"
  using assms by (auto simp: spinePush_def getProperty_def inherited_def Let_def split: option.splits)

lemma foldl_spinePush:
  assumes "protoObj m = None"
    and "\<forall>r \<in> set refs. propertyKey (getAttribute ''idref'' r) \<notin> set (''__proto__'' # objectPrototypeKeys)"
  shows "foldl (spinePush m) sp refs =
     sp @ concat (map (\<lambda>r. case map_of (ownProps m) (propertyKey (getAttribute ''idref'' r)) of
             None \<Rightarrow> []
           | Some i \<Rightarrow> [\<lparr>entryId = getAttribute ''idref'' r, entryItem = Some i\<rparr>]) refs)"
  using assms(2)
proof (induction refs arbitrary: sp)
  case Nil
  show ?case by simp
next
  case (Cons r refs)
  then show ?case using spinePush_known [OF assms(1), of r sp] by simp
qed

text \<open>
  The spine as intended: when no \<open>idref\<close> is a property name of \<open>Object.prototype\<close>
  and no item has the id \<open>__proto__\<close>, the spine is the sequence of \<open>itemref\<close> elements
  whose id the manifest owns, in document order, each with the item of that id.
\<close>

lemma buildSpine_declared_ids:
  assumes "protoObj m = None"
    and "\<forall>r \<in> set refs. propertyKey (getAttribute ''idref'' r) \<notin> set (''__proto__'' # objectPrototypeKeys)"
  shows "buildSpine m refs =
     concat (map (\<lambda>r. case map_of (ownProps m) (propertyKey (getAttribute ''idref'' r)) of
             None \<Rightarrow> []
           | Some i \<Rightarrow> [\<lparr>entryId = getAttribute ''idref'' r, entryItem = Some i\<rparr>]) refs)"
  using foldl_spinePush [OF assms, of "[]"] by (simp add: buildSpine_def)

theorem buildSpine_inherited_key:
  "buildSpine
     (buildManifest ''OEBPS/content.opf''
        [Element ''item'' [(''id'', ''c1''), (''href'', ''chap1.xhtml''), (''media-type'', ''application/xhtml+xml'')] []])
     [Element ''itemref'' [(''idref'', ''constructor'')] [],
      Element ''itemref'' [(''idref'', ''missing'')] [],
      Element ''itemref'' [(''idref'', ''c1'')] []]
   = [\<lparr>entryId = Some ''constructor'', entryItem = None\<rparr>,
      \<lparr>entryId = Some ''c1'', entryItem = Some \<lparr>itemHref = Some ''chap1.xhtml'',
         mediaType = ''application/xhtml+xml'', properties = [], fullPath = ''OEBPS/chap1.xhtml''\<rparr>\<rparr>]"
  by (simp add: buildSpine_def buildManifest_def spinePush_def getProperty_def inherited_def
      objectPrototypeKeys_def setProperty_def emptyObject_def propertyKey_def manifestItemOf_def
      getAttribute_def attrOrEmpty_def resolveHref_def normalizePath_def pathParts_def dirOf_def
      lastIndexOf_def startsWith_def Let_def)

text \<open>
  C3 (the code at the failing input). The package document declares one item, \<open>c1\<close>,
  and its spine refers to \<open>constructor\<close> and to \<open>c1\<close>. \<open>manifest['constructor']\<close> is the
  function inherited from \<open>Object.prototype\<close>, which is truthy: the unknown id is not
  dropped, and the spine starts with an entry that has an id and nothing else.
\<close>

theorem parseEpub_inherited_key:
  "map_sum id spine
     (parseEpub
        \<lparr>asXml = (\<lambda>s. if s = ''container''
            then Element ''container'' []
                   [Element ''rootfiles'' [] [Element ''rootfile'' [(''full-path'', ''OEBPS/content.opf'')] []]]
            else Element ''package'' []
                   [Element ''manifest'' []
                      [Element ''item'' [(''id'', ''c1''), (''href'', ''chap1.xhtml''),
                         (''media-type'', ''application/xhtml+xml'')] []],
                    Element ''spine'' []
                      [Element ''itemref'' [(''idref'', ''constructor'')] [],
                       Element ''itemref'' [(''idref'', ''c1'')] []]]),
          asXhtml = Text, asHtml = Text\<rparr>
        [''META-INF/container.xml'' \<mapsto> Readable ''container'',
         ''OEBPS/content.opf'' \<mapsto> Readable ''package''])
   = Inr [\<lparr>entryId = Some ''constructor'', entryItem = None\<rparr>,
          \<lparr>entryId = Some ''c1'', entryItem = Some \<lparr>itemHref = Some ''chap1.xhtml'',
             mediaType = ''application/xhtml+xml'', properties = [], fullPath = ''OEBPS/chap1.xhtml''\<rparr>\<rparr>]"
  by (simp add: parseEpub_def parsePackage_def readText_def falsy_def rootfilePath_def
      querySelector_def structureOf_def
      buildSpine_def buildManifest_def spinePush_def getProperty_def inherited_def
      objectPrototypeKeys_def setProperty_def emptyObject_def propertyKey_def manifestItemOf_def
      getAttribute_def attrOrEmpty_def resolveHref_def normalizePath_def pathParts_def dirOf_def
      lastIndexOf_def startsWith_def Let_def)

section \<open>Jumping to a link\<close>

lemma findIndexFrom_complete:
  assumes "\<forall>s \<in> set ss. entryItem s \<noteq> None"
  shows "findIndexFrom b k ss =
     Inr (if \<exists>s \<in> set ss. beforeHash (entryPath s) = b
          then k + int (length (takeWhile (\<lambda>s. beforeHash (entryPath s) \<noteq> b) ss))
          else - 1)"
  using assms
proof (induction ss arbitrary: k)
  case Nil
  show ?case by simp
next
  case (Cons s ss)
  then obtain it where it: "entryItem s = Some it" by auto
  from Cons have IH: "findIndexFrom b (k + 1) ss =
     Inr (if \<exists>s \<in> set ss. beforeHash (entryPath s) = b
          then (k + 1) + int (length (takeWhile (\<lambda>s. beforeHash (entryPath s) \<noteq> b) ss))
          else - 1)"
    by simp
  show ?case using it IH by (simp add: entryPath_def)
qed

lemma first_match_index:
  assumes "i < length ss" and "P (ss ! i)" and "\<forall>j < i. \<not> P (ss ! j)"
  shows "length (takeWhile (\<lambda>s. \<not> P s) ss) = i"
  using assms
proof (induction ss arbitrary: i)
  case Nil
  then show ?case by simp
next
  case (Cons s ss)
  show ?case
  proof (cases i)
    case 0
    with Cons.prems show ?thesis by simp
  next
    case (Suc n)
    with Cons.prems have "\<not> P s" by auto
    moreover have "length (takeWhile (\<lambda>s. \<not> P s) ss) = n"
      using Cons.prems Suc by (intro Cons.IH) auto
    ultimately show ?thesis using Suc by simp
  qed
qed

text \<open>
  The jump as intended: when every spine entry has a resolved path, \<open>goToHref\<close>
  returns, sets the index to the first entry whose path matches the link (fragment
  identifiers aside), and leaves the index as it is when none matches.
\<close>

theorem goToHref_first_match:
  assumes "epubData st = Some d"
    and "\<forall>s \<in> set (spine d). entryItem s \<noteq> None"
  shows "\<exists>st'. goToHref st h = Inr st' \<and> epubData st' = epubData st \<and>
      (\<forall>i < length (spine d).
          beforeHash (entryPath (spine d ! i)) = beforeHash h \<and>
          (\<forall>j < i. beforeHash (entryPath (spine d ! j)) \<noteq> beforeHash h)
          \<longrightarrow> chapterIndex st' = int i) \<and>
      ((\<forall>s \<in> set (spine d). beforeHash (entryPath s) \<noteq> beforeHash h)
          \<longrightarrow> chapterIndex st' = chapterIndex st)"
proof -
  let ?P = "\<lambda>s. beforeHash (entryPath s) = beforeHash h"
  let ?idx = "if \<exists>s \<in> set (spine d). ?P s
          then int (length (takeWhile (\<lambda>s. \<not> ?P s) (spine d))) else - 1"
  let ?st' = "(if ?idx \<ge> 0 then st\<lparr>chapterIndex := ?idx\<rparr> else st)\<lparr>showToc := False\<rparr>"
  have f: "findIndexFrom (beforeHash h) 0 (spine d) = Inr ?idx"
    using findIndexFrom_complete [OF assms(2), of "beforeHash h" 0] by simp
  have g: "goToHref st h = Inr ?st'"
    unfolding goToHref_def using assms(1) f by simp
  have e: "epubData ?st' = epubData st" by simp
  have hit: "chapterIndex ?st' = int i"
    if "i < length (spine d)" "?P (spine d ! i)" "\<forall>j < i. \<not> ?P (spine d ! j)" for i
  proof -
    have "length (takeWhile (\<lambda>s. \<not> ?P s) (spine d)) = i"
      using first_match_index [of i "spine d" ?P] that by simp
    moreover have "\<exists>s \<in> set (spine d). ?P s" using that(1,2) nth_mem by blast
    ultimately show ?thesis by simp
  qed
  have miss: "chapterIndex ?st' = chapterIndex st" if "\<forall>s \<in> set (spine d). \<not> ?P s"
    using that by simp
  show ?thesis using g e hit miss by blast
qed

theorem goToHref_scenario:
  "goToHref \<lparr>epubData = Some \<lparr>spine = map (\<lambda>p. \<lparr>entryId = Some p, entryItem = Some \<lparr>itemHref = Some p,
        mediaType = ''application/xhtml+xml'', properties = [], fullPath = ''OEBPS/text/'' @ p\<rparr>\<rparr>)
        [''cover.xhtml'', ''toc.xhtml'', ''ch1.xhtml'', ''ch2.xhtml'', ''ch3.xhtml'', ''ch4.xhtml''],
      manifest = emptyObject, toc = []\<rparr>, chapterIndex = 1, showToc = True\<rparr>
     ''OEBPS/text/ch3.xhtml#section2''
   = Inr \<lparr>epubData = Some \<lparr>spine = map (\<lambda>p. \<lparr>entryId = Some p, entryItem = Some \<lparr>itemHref = Some p,
        mediaType = ''application/xhtml+xml'', properties = [], fullPath = ''OEBPS/text/'' @ p\<rparr>\<rparr>)
        [''cover.xhtml'', ''toc.xhtml'', ''ch1.xhtml'', ''ch2.xhtml'', ''ch3.xhtml'', ''ch4.xhtml''],
      manifest = emptyObject, toc = []\<rparr>, chapterIndex = 4, showToc = False\<rparr>"
  by (simp add: goToHref_def beforeHash_def)

text \<open>
  C8 (the code at the failing input). For the book opened from the same package
  document, whose first spine entry has no \<open>fullPath\<close>, the search raises a \<open>TypeError\<close>: for a link
  that matches nothing, and for a link to the chapter that follows in the spine.
\<close>

theorem goToHref_inherited_key:
  "(case parseEpub
        \<lparr>asXml = (\<lambda>s. if s = ''container''
            then Element ''container'' []
                   [Element ''rootfiles'' [] [Element ''rootfile'' [(''full-path'', ''OEBPS/content.opf'')] []]]
            else Element ''package'' []
                   [Element ''manifest'' []
                      [Element ''item'' [(''id'', ''c1''), (''href'', ''chap1.xhtml''),
                         (''media-type'', ''application/xhtml+xml'')] []],
                    Element ''spine'' []
                      [Element ''itemref'' [(''idref'', ''constructor'')] [],
                       Element ''itemref'' [(''idref'', ''c1'')] []]]),
          asXhtml = Text, asHtml = Text\<rparr>
        [''META-INF/container.xml'' \<mapsto> Readable ''container'',
         ''OEBPS/content.opf'' \<mapsto> Readable ''package''] of
      Inl e \<Rightarrow> False
    | Inr b \<Rightarrow>
        goToHref \<lparr>epubData = Some b, chapterIndex = 0, showToc = True\<rparr> ''OEBPS/nowhere.xhtml''
          = Inl TypeError \<and>
        goToHref \<lparr>epubData = Some b, chapterIndex = 0, showToc = True\<rparr> ''OEBPS/chap1.xhtml#s1''
          = Inl TypeError)"
  by (simp add: parseEpub_def parsePackage_def readText_def falsy_def rootfilePath_def
      querySelector_def structureOf_def goToHref_def
      buildSpine_def buildManifest_def spinePush_def getProperty_def inherited_def
      objectPrototypeKeys_def setProperty_def emptyObject_def propertyKey_def manifestItemOf_def
      getAttribute_def attrOrEmpty_def Let_def)

section \<open>Precedence of the legacy table of contents\<close>

lemma legacy_reads: "\<forall>a \<in> set (snd (legacyAttempt ps ar m)). \<not> isModern a"
  by (simp add: legacyAttempt_def split: option.splits)

text \<open>
  C4. When the legacy attempt yields at least one entry, the recovered table of contents
  is exactly its result, the book's \<open>toc\<close> is that result, and no read of the modern
  navigation document is made; so a modern read happens only when the legacy attempt
  yields no entry.
\<close>

theorem legacy_toc_wins:
  assumes "fst (legacyAttempt ps ar m) \<noteq> []"
  shows "recoverToc ps ar m = legacyAttempt ps ar m \<and>
         (\<forall>a \<in> set (snd (recoverToc ps ar m)). \<not> isModern a) \<and>
         (m = manifest (structureOf ps ar opfPath opfXml) \<longrightarrow>
            toc (structureOf ps ar opfPath opfXml) = fst (legacyAttempt ps ar m))"
  using assms legacy_reads [of ps ar m] by (auto simp: recoverToc_def structureOf_def Let_def)

theorem legacy_toc_wins_witness:
  "recoverToc
     \<lparr>asXml = (\<lambda>s. Element ''ncx'' [] [Element ''navMap'' []
          [Element ''navPoint'' []
             [Element ''navLabel'' [] [Element ''text'' [] [Text ''Chapter One'']],
              Element ''content'' [(''src'', ''ch1.xhtml'')] []]]]),
      asXhtml = (\<lambda>s. Element ''html'' [] [Element ''body'' [] [Element ''nav'' [(''epub:type'', ''toc'')]
          [Element ''ol'' [] [Element ''li'' [] [Element ''a'' [(''href'', ''intro.xhtml'')] [Text ''Intro'']]]]]]),
      asHtml = Text\<rparr>
     [''OEBPS/toc.ncx'' \<mapsto> Readable ''ncx'', ''OEBPS/nav.xhtml'' \<mapsto> Readable ''nav'']
     (buildManifest ''OEBPS/content.opf''
        [Element ''item'' [(''id'', ''nav''), (''href'', ''nav.xhtml''),
           (''media-type'', ''application/xhtml+xml''), (''properties'', ''nav'')] [],
         Element ''item'' [(''id'', ''ncx''), (''href'', ''toc.ncx''),
           (''media-type'', ''application/x-dtbncx+xml'')] []])
   = ([NavNode ''Chapter One'' ''OEBPS/ch1.xhtml'' []], [LegacyRead ''OEBPS/toc.ncx''])"
proof -
  let ?ps = "\<lparr>asXml = (\<lambda>s. Element ''ncx'' [] [Element ''navMap'' []
          [Element ''navPoint'' []
             [Element ''navLabel'' [] [Element ''text'' [] [Text ''Chapter One'']],
              Element ''content'' [(''src'', ''ch1.xhtml'')] []]]]),
      asXhtml = (\<lambda>s. Element ''html'' [] [Element ''body'' [] [Element ''nav'' [(''epub:type'', ''toc'')]
          [Element ''ol'' [] [Element ''li'' [] [Element ''a'' [(''href'', ''intro.xhtml'')] [Text ''Intro'']]]]]]),
      asHtml = Text\<rparr>"
  let ?ar = "[''OEBPS/toc.ncx'' \<mapsto> Readable ''ncx'', ''OEBPS/nav.xhtml'' \<mapsto> Readable ''nav'']"
  let ?m = "buildManifest ''OEBPS/content.opf''
        [Element ''item'' [(''id'', ''nav''), (''href'', ''nav.xhtml''),
           (''media-type'', ''application/xhtml+xml''), (''properties'', ''nav'')] [],
         Element ''item'' [(''id'', ''ncx''), (''href'', ''toc.ncx''),
           (''media-type'', ''application/x-dtbncx+xml'')] []]"
  have m: "objectValues ?m =
     [\<lparr>itemHref = Some ''nav.xhtml'', mediaType = ''application/xhtml+xml'', properties = ''nav'',
        fullPath = ''OEBPS/nav.xhtml''\<rparr>,
      \<lparr>itemHref = Some ''toc.ncx'', mediaType = ''application/x-dtbncx+xml'', properties = [],
        fullPath = ''OEBPS/toc.ncx''\<rparr>]"
    by (simp add: objectValues_def buildManifest_def setProperty_def emptyObject_def propertyKey_def
        manifestItemOf_def getAttribute_def attrOrEmpty_def resolveHref_def isArrayIndex_def isDigit_def
        normalizePath_def pathParts_def dirOf_def lastIndexOf_def startsWith_def)
  have l: "legacyAttempt ?ps ?ar ?m = ([NavNode ''Chapter One'' ''OEBPS/ch1.xhtml'' []], [LegacyRead ''OEBPS/toc.ncx''])"
    unfolding legacyAttempt_def m
    by (simp add: readText_def parseNcxPoints_def parseNcxPoint.simps ncxLabelElement_def ncxSrc_def
        childrenNamed_def firstChildNamed_def trimmedText_def trim_def isWhite_def
        getAttribute_def attrOrEmpty_def resolveHref_def
        normalizePath_def pathParts_def dirOf_def lastIndexOf_def startsWith_def)
  then have "fst (legacyAttempt ?ps ?ar ?m) \<noteq> []" by simp
  from legacy_toc_wins [OF this] l show ?thesis by simp
qed

section \<open>The content normalizer\<close>

lemmas eval_defs =
  loadChapter_def loadSpineItem_def loadContent_def readText_def entryPath_def sanitized_def
  embedded_def parseChapter_def contentRoot_def querySelector_def isStyleSheet_def
  selectedAttribute_def getAttribute_def
  removeAttr_def embedImgAttrs_def embedImageAttrs_def imageRef_def dataUrlFor_def
  normalizePath_def pathParts_def dirOf_def lastIndexOf_def startsWith_def Let_def

lemmas example_defs =
  chapterItem_def chapterEntry_def pngUrl_def xhtmlOnly_def

text \<open>
  C5 (as amended). When the path of a spine item is absent from the archive, neither
  normalizer fails: \<open>loadChapter\<close> returns the not-found placeholder, \<open>loadSpineItem\<close>
  returns the empty string.
\<close>

theorem load_missing_chapter:
  assumes "ar (entryPath e) = None"
  shows "loadChapter ps toDataUrl ar e = Inr (Literal chapterNotFound) \<and>
         loadSpineItem ps toDataUrl ar e = Inr (Literal [])"
  using assms by (simp add: loadChapter_def loadSpineItem_def loadContent_def readText_def)

theorem load_missing_chapter_witness:
  "Map.empty (entryPath \<lparr>entryId = Some ''c1'', entryItem = Some \<lparr>itemHref = Some ''ch1.xhtml'',
      mediaType = ''application/xhtml+xml'', properties = [], fullPath = ''OEBPS/ch1.xhtml''\<rparr>\<rparr>) = (None :: entry option) \<and>
   loadChapter \<lparr>asXml = Text, asXhtml = Text, asHtml = Text\<rparr> id Map.empty
     \<lparr>entryId = Some ''c1'', entryItem = Some \<lparr>itemHref = Some ''ch1.xhtml'',
      mediaType = ''application/xhtml+xml'', properties = [], fullPath = ''OEBPS/ch1.xhtml''\<rparr>\<rparr>
     = Inr (Literal chapterNotFound)"
  using load_missing_chapter [of Map.empty "\<lparr>entryId = Some ''c1'', entryItem = Some \<lparr>itemHref = Some ''ch1.xhtml'',
      mediaType = ''application/xhtml+xml'', properties = [], fullPath = ''OEBPS/ch1.xhtml''\<rparr>\<rparr>"
      "\<lparr>asXml = Text, asXhtml = Text, asHtml = Text\<rparr>" id]
  by simp

text \<open>
  C5 as stated fails for the whole-book normalizer: for a missing chapter it returns the
  empty string, not a placeholder.
\<close>

theorem loadSpineItem_missing_counterexample:
  "loadSpineItem \<lparr>asXml = Text, asXhtml = Text, asHtml = Text\<rparr> id Map.empty
     \<lparr>entryId = Some ''c1'', entryItem = Some \<lparr>itemHref = Some ''ch1.xhtml'',
      mediaType = ''application/xhtml+xml'', properties = [], fullPath = ''OEBPS/ch1.xhtml''\<rparr>\<rparr>
     = Inr (Literal [])"
  by (simp add: loadSpineItem_def loadContent_def readText_def entryPath_def)

lemma map_of_removeAttr:
  "map_of (removeAttr k as) k' = (if k' = k then None else map_of as k')"
  by (induction as) (auto simp: removeAttr_def)



text \<open>
  C1 (the code at the failing input). The chapter \<open>OEBPS/text/ch1.xhtml\<close> is well-formed XHTML with the body

  \<^verbatim>\<open><link rel="Stylesheet" href="../css/a.css"/><p style="color:red" class="c">Hi</p>\<close>
  \<^verbatim>\<open><template><style>p{color:red}</style><p style="color:red">Ho</p></template>\<close>

  Both normalizers return a fragment that holds the stylesheet link, whose \<open>rel\<close> the
  selector compares as it is written, and the \<open>style\<close> element and the \<open>style\<close> attribute
  inside the \<open>template\<close>, where the selectors do not look. Only the \<open>style\<close> attribute of
  the first paragraph is gone.
\<close>

theorem fragment_keeps_styling:
  "loadChapter (xhtmlOnly styledChapter) pngUrl [''OEBPS/text/ch1.xhtml'' \<mapsto> Readable ''chapter''] chapterEntry
     = Inr (InnerHTML
        [Element ''link'' [(''rel'', ''Stylesheet''), (''href'', ''../css/a.css'')] [],
         Element ''p'' [(''class'', ''c'')] [Text ''Hi''],
         Template []
           [Element ''style'' [] [Text ''p{color:red}''],
            Element ''p'' [(''style'', ''color:red'')] [Text ''Ho'']]]) \<and>
   loadSpineItem (xhtmlOnly styledChapter) pngUrl [''OEBPS/text/ch1.xhtml'' \<mapsto> Readable ''chapter''] chapterEntry
     = loadChapter (xhtmlOnly styledChapter) pngUrl [''OEBPS/text/ch1.xhtml'' \<mapsto> Readable ''chapter''] chapterEntry \<and>
   map spec_styleFree
        [Element ''link'' [(''rel'', ''Stylesheet''), (''href'', ''../css/a.css'')] [],
         Element ''p'' [(''class'', ''c'')] [Text ''Hi''],
         Template []
           [Element ''style'' [] [Text ''p{color:red}''],
            Element ''p'' [(''style'', ''color:red'')] [Text ''Ho'']]]
     = [False, True, False]"
proof -
  have "loadChapter (xhtmlOnly styledChapter) pngUrl [''OEBPS/text/ch1.xhtml'' \<mapsto> Readable ''chapter''] chapterEntry
     = Inr (InnerHTML
        [Element ''link'' [(''rel'', ''Stylesheet''), (''href'', ''../css/a.css'')] [],
         Element ''p'' [(''class'', ''c'')] [Text ''Hi''],
         Template []
           [Element ''style'' [] [Text ''p{color:red}''],
            Element ''p'' [(''style'', ''color:red'')] [Text ''Ho'']]])"
    by (simp add: eval_defs example_defs styledChapter_def)
  moreover have "loadSpineItem (xhtmlOnly styledChapter) pngUrl [''OEBPS/text/ch1.xhtml'' \<mapsto> Readable ''chapter''] chapterEntry
     = loadChapter (xhtmlOnly styledChapter) pngUrl [''OEBPS/text/ch1.xhtml'' \<mapsto> Readable ''chapter''] chapterEntry"
    by (simp add: eval_defs example_defs styledChapter_def)
  moreover have "map spec_styleFree
        [Element ''link'' [(''rel'', ''Stylesheet''), (''href'', ''../css/a.css'')] [],
         Element ''p'' [(''class'', ''c'')] [Text ''Hi''],
         Template []
           [Element ''style'' [] [Text ''p{color:red}''],
            Element ''p'' [(''style'', ''color:red'')] [Text ''Ho'']]]
     = [False, True, False]"
    by (simp add: spec_styleElement_def spec_stylesheetLink_def spec_styleAttribute_def
        lower_def asciiLower_def relKeywords_def)
  ultimately show ?thesis by (intro conjI)
qed


















text \<open>
  Two references that the image loops leave as they are although the archive holds the
  image. An \<open>img\<close> inside a \<open>template\<close> is not among the elements the loop visits. A
  reference that begins with \<open>/\<close> is looked up below the directory of the chapter, not
  from the root of the container as the resolver would: \<open>/OEBPS/images/a.png\<close> in
  \<open>OEBPS/text/ch1.xhtml\<close> is looked up as \<open>OEBPS/text/OEBPS/images/a.png\<close>.
\<close>

lemma unvisited_references:
  "resolveHref ''OEBPS/text/ch1.xhtml'' (Some ''/OEBPS/images/a.png'') = ''OEBPS/images/a.png'' \<and>
   normalizePath (dirOf ''OEBPS/text/ch1.xhtml'' @ ''/OEBPS/images/a.png'') = ''OEBPS/text/OEBPS/images/a.png'' \<and>
   loadChapter (xhtmlOnly templateChapter) pngUrl picturesArchive chapterEntry
     = Inr (InnerHTML
        [Template [] [Element ''img'' [(''src'', ''../images/a.png'')] []],
         Element ''img'' [(''src'', ''/OEBPS/images/a.png'')] []])"
proof -
  have "resolveHref ''OEBPS/text/ch1.xhtml'' (Some ''/OEBPS/images/a.png'') = ''OEBPS/images/a.png''"
    by (simp add: path_eval)
  moreover have "normalizePath (dirOf ''OEBPS/text/ch1.xhtml'' @ ''/OEBPS/images/a.png'')
      = ''OEBPS/text/OEBPS/images/a.png''"
    by (simp add: path_eval)
  moreover have "loadChapter (xhtmlOnly templateChapter) pngUrl picturesArchive chapterEntry
     = Inr (InnerHTML
        [Template [] [Element ''img'' [(''src'', ''../images/a.png'')] []],
         Element ''img'' [(''src'', ''/OEBPS/images/a.png'')] []])"
    by (simp add: eval_defs example_defs templateChapter_def picturesArchive_def)
  ultimately show ?thesis by (intro conjI)
qed

end
